theory Spec2Isabelle
  imports Main "HOL-Library.Sublist"
begin

section \<open>JavaScript strings\<close>

text \<open>
  A string is a list of characters; a character stands for the code point of the same
  number (0 to 255). On this range the library functions used by the assistant
  (\<open>toLowerCase\<close>, \<open>trim\<close>, the classes \<open>\s\<close> and \<open>\d\<close>, matching under the
  flag \<open>i\<close>) are the ones defined below.
\<close>

definition code :: "char \<Rightarrow> nat" where
  "code c = of_char c"

definition toLowerChar :: "char \<Rightarrow> char" where
  "toLowerChar c =
     (if (65 \<le> code c \<and> code c \<le> 90) \<or> (192 \<le> code c \<and> code c \<le> 222 \<and> code c \<noteq> 215)
      then char_of (code c + 32) else c)"

definition toLowerCase :: "string \<Rightarrow> string" where
  "toLowerCase s = map toLowerChar s"

definition isSpace :: "char \<Rightarrow> bool" where
  \<comment> \<open>the class \<open>\s\<close>: tab, line feed, vertical tab, form feed, carriage return, space,
      no-break space\<close>
  "isSpace c = (code c \<in> {9, 10, 11, 12, 13, 32, 160})"

definition isDigit :: "char \<Rightarrow> bool" where
  \<comment> \<open>the class \<open>\d\<close>\<close>
  "isDigit c = (48 \<le> code c \<and> code c \<le> 57)"

definition trim :: "string \<Rightarrow> string" where
  "trim s = rev (dropWhile isSpace (rev (dropWhile isSpace s)))"

definition startsWith :: "string \<Rightarrow> string \<Rightarrow> bool" where
  "startsWith s w = prefix w s"

fun includes_s :: "string \<Rightarrow> string \<Rightarrow> bool" where
  "includes_s [] w = (w = [])"
| "includes_s (c # cs) w = (startsWith (c # cs) w \<or> includes_s cs w)"

definition startsWithCI :: "string \<Rightarrow> string \<Rightarrow> bool" where
  \<comment> \<open>a literal of a pattern with the flag \<open>i\<close>, tried at the start of \<open>s\<close>\<close>
  "startsWithCI s w = prefix (toLowerCase w) (toLowerCase (take (length w) s))"

text \<open>\<open>parseInt\<close> on a string of decimal digits, and the decimal form of a number.\<close>

definition digitValue :: "char \<Rightarrow> nat" where
  "digitValue c = code c - 48"

definition parseInt :: "string \<Rightarrow> nat" where
  "parseInt ds = foldl (\<lambda>a c. 10 * a + digitValue c) 0 ds"

fun natToString :: "nat \<Rightarrow> string" where
  "natToString n =
     (if n < 10 then [char_of (48 + n)]
      else natToString (n div 10) @ [char_of (48 + n mod 10)])"

declare natToString.simps [simp del]

definition numberToString :: "int \<Rightarrow> string" where
  "numberToString i = (if i < 0 then CHR ''-'' # natToString (nat (- i)) else natToString (nat i))"

text \<open>
  The leftmost match of a pattern: \<open>at\<close> tries the pattern at the start of a string and
  returns what it captured; \<open>search\<close> tries every start position from left to right,
  the end of the string included.
\<close>

fun search :: "(string \<Rightarrow> 'a option) \<Rightarrow> string \<Rightarrow> 'a option" where
  "search at [] = at []"
| "search at (c # cs) = (case at (c # cs) of Some r \<Rightarrow> Some r | None \<Rightarrow> search at cs)"

section \<open>Dates\<close>

text \<open>
  A time value is a number of milliseconds. The functions are those of the language
  definition: \<open>Day\<close>, \<open>WeekDay\<close>, \<open>MakeTime\<close>, \<open>MakeDay\<close>, \<open>MakeDate\<close> and the getters
  and setters built on them. The getters and setters of this first part work on a local
  time value, and a setter returns the local time value that it computes. Numbers are
  integers, which is exact for the numbers of the program up to 2 to the power 53.
\<close>

definition msPerSecond :: int where "msPerSecond = 1000"
definition msPerMinute :: int where "msPerMinute = 60000"
definition msPerHour :: int where "msPerHour = 3600000"
definition msPerDay :: int where "msPerDay = 86400000"

definition Day :: "int \<Rightarrow> int" where
  "Day t = t div msPerDay"

definition TimeWithinDay :: "int \<Rightarrow> int" where
  "TimeWithinDay t = t mod msPerDay"

definition HourFromTime :: "int \<Rightarrow> int" where
  "HourFromTime t = (t div msPerHour) mod 24"

definition MinFromTime :: "int \<Rightarrow> int" where
  "MinFromTime t = (t div msPerMinute) mod 60"

definition SecFromTime :: "int \<Rightarrow> int" where
  "SecFromTime t = (t div msPerSecond) mod 60"

definition msFromTime :: "int \<Rightarrow> int" where
  "msFromTime t = t mod msPerSecond"

definition WeekDay :: "int \<Rightarrow> int" where
  \<comment> \<open>0 is Sunday; day 0 (1 January 1970) was a Thursday\<close>
  "WeekDay t = (Day t + 4) mod 7"

definition DayFromYear :: "int \<Rightarrow> int" where
  "DayFromYear y = 365 * (y - 1970) + (y - 1969) div 4 - (y - 1901) div 100 + (y - 1601) div 400"

definition InLeapYear :: "int \<Rightarrow> int" where
  \<comment> \<open>1 in a leap year, 0 otherwise, for the year \<open>y\<close>\<close>
  "InLeapYear y = (if y mod 4 \<noteq> 0 then 0 else if y mod 100 \<noteq> 0 then 1
                   else if y mod 400 \<noteq> 0 then 0 else 1)"

definition YearFromTime :: "int \<Rightarrow> int" where
  \<comment> \<open>the year \<open>y\<close> with \<open>DayFromYear y \<le> Day t < DayFromYear (y + 1)\<close>, found among the
      three years around the estimate by the mean length of a year\<close>
  "YearFromTime t =
     (let d = Day t; y = 1970 + (400 * d) div 146097
      in if DayFromYear (y + 1) \<le> d then y + 1 else if DayFromYear y \<le> d then y else y - 1)"

definition DayWithinYear :: "int \<Rightarrow> int" where
  "DayWithinYear t = Day t - DayFromYear (YearFromTime t)"

definition monthStart :: "int \<Rightarrow> int \<Rightarrow> int" where
  \<comment> \<open>the day within the year on which month \<open>m\<close> (0 to 11) begins; \<open>l\<close> is \<open>InLeapYear\<close>\<close>
  "monthStart l m =
     (if m = 0 then 0 else if m = 1 then 31 else if m = 2 then 59 + l
      else if m = 3 then 90 + l else if m = 4 then 120 + l else if m = 5 then 151 + l
      else if m = 6 then 181 + l else if m = 7 then 212 + l else if m = 8 then 243 + l
      else if m = 9 then 273 + l else if m = 10 then 304 + l else 334 + l)"

definition MonthFromTime :: "int \<Rightarrow> int" where
  "MonthFromTime t =
     (let d = DayWithinYear t; l = InLeapYear (YearFromTime t)
      in if d < 31 then 0 else if d < 59 + l then 1 else if d < 90 + l then 2
         else if d < 120 + l then 3 else if d < 151 + l then 4 else if d < 181 + l then 5
         else if d < 212 + l then 6 else if d < 243 + l then 7 else if d < 273 + l then 8
         else if d < 304 + l then 9 else if d < 334 + l then 10 else 11)"

definition DateFromTime :: "int \<Rightarrow> int" where
  "DateFromTime t =
     DayWithinYear t - monthStart (InLeapYear (YearFromTime t)) (MonthFromTime t) + 1"

definition MakeTime :: "int \<Rightarrow> int \<Rightarrow> int \<Rightarrow> int \<Rightarrow> int" where
  "MakeTime h m s ms = h * msPerHour + m * msPerMinute + s * msPerSecond + ms"

definition MakeDay :: "int \<Rightarrow> int \<Rightarrow> int \<Rightarrow> int" where
  "MakeDay year month dt =
     (let ym = year + month div 12; mn = month mod 12
      in DayFromYear ym + monthStart (InLeapYear ym) mn + dt - 1)"

definition MakeDate :: "int \<Rightarrow> int \<Rightarrow> int" where
  "MakeDate day time = day * msPerDay + time"

definition getMinutes :: "int \<Rightarrow> int" where "getMinutes t = MinFromTime t"
definition getHours :: "int \<Rightarrow> int" where "getHours t = HourFromTime t"
definition getDate :: "int \<Rightarrow> int" where "getDate t = DateFromTime t"
definition getDay :: "int \<Rightarrow> int" where "getDay t = WeekDay t"

definition setMinutes :: "int \<Rightarrow> int \<Rightarrow> int" where
  "setMinutes t m = MakeDate (Day t) (MakeTime (HourFromTime t) m (SecFromTime t) (msFromTime t))"

definition setHours :: "int \<Rightarrow> int \<Rightarrow> int" where
  \<comment> \<open>\<open>setHours\<close> with the hour only\<close>
  "setHours t h = MakeDate (Day t) (MakeTime h (MinFromTime t) (SecFromTime t) (msFromTime t))"

definition setHours4 :: "int \<Rightarrow> int \<Rightarrow> int \<Rightarrow> int \<Rightarrow> int \<Rightarrow> int" where
  \<comment> \<open>\<open>setHours\<close> with hour, minute, second and millisecond\<close>
  "setHours4 t h m s ms = MakeDate (Day t) (MakeTime h m s ms)"

definition setDate :: "int \<Rightarrow> int \<Rightarrow> int" where
  "setDate t dt = MakeDate (MakeDay (YearFromTime t) (MonthFromTime t) dt) (TimeWithinDay t)"

subsection \<open>The zone and the range of a Date\<close>

text \<open>
  A \<open>Date\<close> object holds a time value in UTC, or \<open>NaN\<close> when it is invalid. A getter reads
  the local time \<open>LocalTime\<close> of the time value. A setter computes the new local time
  from it, converts it back with \<open>UTC\<close> and clips it with \<open>TimeClip\<close>: more than
  8.64e15 milliseconds away from the epoch the \<open>Date\<close> is invalid. The offset of local
  time belongs to the zone of the host, which gives the offset in force at a time value
  (\<open>utcOffset\<close>) and the offset by which it reads a local time (\<open>localOffset\<close>); the two
  differ around a change of the offset, such as the start and the end of daylight saving
  time.
\<close>

datatype Date = At int | Invalid

record Zone =
  utcOffset :: "int \<Rightarrow> int"
  localOffset :: "int \<Rightarrow> int"

definition maxTime :: int where
  "maxTime = 8640000000000000"

definition TimeClip :: "int \<Rightarrow> Date" where
  "TimeClip t = (if abs t > maxTime then Invalid else At t)"

definition LocalTime :: "Zone \<Rightarrow> int \<Rightarrow> int" where
  "LocalTime z t = t + utcOffset z t"

definition UTC :: "Zone \<Rightarrow> int \<Rightarrow> int" where
  "UTC z t = t - localOffset z t"

text \<open>
  The methods of a valid \<open>Date\<close> with the time value \<open>t\<close>, in the zone \<open>z\<close>.
\<close>

definition getMinutesIn :: "Zone \<Rightarrow> int \<Rightarrow> int" where
  "getMinutesIn z t = getMinutes (LocalTime z t)"

definition getHoursIn :: "Zone \<Rightarrow> int \<Rightarrow> int" where
  "getHoursIn z t = getHours (LocalTime z t)"

definition getDateIn :: "Zone \<Rightarrow> int \<Rightarrow> int" where
  "getDateIn z t = getDate (LocalTime z t)"

definition setMinutesIn :: "Zone \<Rightarrow> int \<Rightarrow> int \<Rightarrow> Date" where
  "setMinutesIn z t m = TimeClip (UTC z (setMinutes (LocalTime z t) m))"

definition setHoursIn :: "Zone \<Rightarrow> int \<Rightarrow> int \<Rightarrow> Date" where
  "setHoursIn z t h = TimeClip (UTC z (setHours (LocalTime z t) h))"

definition setDateIn :: "Zone \<Rightarrow> int \<Rightarrow> int \<Rightarrow> Date" where
  "setDateIn z t dt = TimeClip (UTC z (setDate (LocalTime z t) dt))"

definition toISOString :: "Date \<Rightarrow> int option" where
  \<comment> \<open>the instant that the string denotes; \<open>None\<close> is the \<open>RangeError\<close> thrown for an
      invalid \<open>Date\<close>\<close>
  "toISOString d = (case d of At t \<Rightarrow> Some t | Invalid \<Rightarrow> None)"

section \<open>timeParser.js\<close>

subsection \<open>The patterns\<close>

text \<open>
  Each pattern is a function that tries it at the start of a string and returns the
  matched text with its groups. It follows the order in which the engine tries the
  alternatives and the optional groups. A quantifier takes all it can; giving some of it
  back never leads to a match, since what follows a quantifier in these patterns never
  starts with a character the quantifier accepts.
\<close>

definition firstAlternative :: "string list \<Rightarrow> string \<Rightarrow> string option" where
  \<comment> \<open>an alternation of literals \<open>(a|b|...)\<close> under the flag \<open>i\<close>: the text it takes\<close>
  "firstAlternative ws s = map_option (\<lambda>w. take (length w) s) (find (startsWithCI s) ws)"

definition unitWords :: "string list" where
  "unitWords = [''minute'', ''min'', ''hour'', ''hr'', ''day'', ''week'']"

definition inAt :: "string \<Rightarrow> (string \<times> string \<times> string) option" where
  \<comment> \<open>\<open>/in\s+(\d+)\s*(minute|min|hour|hr|day|week)s?/i\<close>: the match, group 1, group 2\<close>
  "inAt s =
     (if \<not> startsWithCI s ''in'' then None
      else let r1 = drop 2 s;
               ws1 = takeWhile isSpace r1; r2 = dropWhile isSpace r1;
               ds = takeWhile isDigit r2; r3 = dropWhile isDigit r2;
               r4 = dropWhile isSpace r3
           in if ws1 = [] \<or> ds = [] then None
              else case firstAlternative unitWords r4 of
                     None \<Rightarrow> None
                   | Some u \<Rightarrow>
                       let r5 = drop (length u) r4;
                           r6 = (if startsWithCI r5 ''s'' then drop 1 r5 else r5)
                       in Some (take (length s - length r6) s, ds, u))"

definition timeAt :: "string \<Rightarrow> (string \<times> string \<times> string option \<times> string option) option" where
  \<comment> \<open>\<open>/(?:at\s+)?(\d{1,2})(?::(\d{2}))?\s*(am|pm)?/i\<close>: the match and groups 1 to 3\<close>
  "timeAt s =
     (let a = dropWhile isSpace (drop 2 s);
          r0 = (if startsWithCI s ''at'' \<and> takeWhile isSpace (drop 2 s) \<noteq> []
                   \<and> takeWhile isDigit a \<noteq> [] then a else s);
          h = take 2 (takeWhile isDigit r0)
      in if h = [] then None
         else let r1 = drop (length h) r0;
                  mn = (if startsWith r1 '':'' \<and> length (takeWhile isDigit (take 2 (drop 1 r1))) = 2
                        then Some (take 2 (drop 1 r1)) else None);
                  r2 = (case mn of Some _ \<Rightarrow> drop 3 r1 | None \<Rightarrow> r1);
                  r3 = dropWhile isSpace r2;
                  period = firstAlternative [''am'', ''pm''] r3;
                  r4 = (case period of Some _ \<Rightarrow> drop 2 r3 | None \<Rightarrow> r3)
              in Some (take (length s - length r4) s, h, mn, period))"

definition weekdays :: "string list" where
  "weekdays = [''sunday'', ''monday'', ''tuesday'', ''wednesday'', ''thursday'', ''friday'',
               ''saturday'']"

definition weekdayAt :: "string \<Rightarrow> (string \<times> string option \<times> string) option" where
  \<comment> \<open>\<open>/(next|this)?\s*(sunday|monday|tuesday|wednesday|thursday|friday|saturday)/i\<close>:
      with the qualifier first, and without it when no weekday follows the qualifier\<close>
  "weekdayAt s =
     (let q = firstAlternative [''next'', ''this''] s;
          r1 = dropWhile isSpace (drop 4 s);
          r2 = dropWhile isSpace s
      in case (if q = None then None else firstAlternative weekdays r1) of
           Some d \<Rightarrow> Some (take (length s - length r1 + length d) s, q, d)
         | None \<Rightarrow>
             (case firstAlternative weekdays r2 of
                Some d \<Rightarrow> Some (take (length s - length r2 + length d) s, None, d)
              | None \<Rightarrow> None))"

definition inAWeekAt :: "string \<Rightarrow> unit option" where
  \<comment> \<open>\<open>/in\s+a\s+week/i\<close>\<close>
  "inAWeekAt s =
     (let r1 = drop 2 s; r2 = dropWhile isSpace r1; r3 = drop 1 r2; r4 = dropWhile isSpace r3
      in if startsWithCI s ''in'' \<and> takeWhile isSpace r1 \<noteq> [] \<and> startsWithCI r2 ''a''
            \<and> takeWhile isSpace r3 \<noteq> [] \<and> startsWithCI r4 ''week''
         then Some () else None)"

fun indexOf :: "'a list \<Rightarrow> 'a \<Rightarrow> int" where
  "indexOf [] x = - 1"
| "indexOf (y # ys) x = (if x = y then 0 else let i = indexOf ys x in if i < 0 then - 1 else i + 1)"

subsection \<open>parseTimeExpression\<close>

text \<open>
  The branch for \<open>in N unit\<close> moves the clock reading by an amount that the text gives. It
  is computed on the \<open>Date\<close> object, with the zone of the host and the range of a \<open>Date\<close>.
  The branches for a day and a time of day move the date by at most two weeks and set the
  time of day. They are computed on local time values: there \<open>now\<close> is read as the local
  time of the clock and the date returned as a local time, the offset of local time being
  taken as constant and the dates within the range.
\<close>

record ParsedTime =
  date :: "Date option"
  matched :: "string option"

definition applyOffset :: "Zone \<Rightarrow> int \<Rightarrow> int \<Rightarrow> string \<Rightarrow> Date" where
  \<comment> \<open>lines 20 to 30: the copy of \<open>now\<close> and the branch on the unit\<close>
  "applyOffset z now amount unit =
     (let result = now
      in if startsWith unit ''min'' then setMinutesIn z result (getMinutesIn z result + amount)
         else if startsWith unit ''hour'' \<or> unit = ''hr''
              then setHoursIn z result (getHoursIn z result + amount)
         else if unit = ''day'' then setDateIn z result (getDateIn z result + amount)
         else if unit = ''week'' then setDateIn z result (getDateIn z result + amount * 7)
         else At result)"

definition dayWords :: "(string \<times> int) list" where
  "dayWords = [(''today'', 0), (''tonight'', 0), (''tomorrow'', 1), (''day after tomorrow'', 2)]"

definition resolveDay :: "string \<Rightarrow> int \<Rightarrow> int \<times> string option" where
  \<comment> \<open>lines 46 to 81: \<open>targetDate\<close> and \<open>matchedDay\<close> after the day words, the weekday
      pattern and the two phrases for a week\<close>
  "resolveDay lowerText now =
     (let (targetDate, matchedDay) =
            (case find (\<lambda>(word, daysAhead). includes_s lowerText word) dayWords of
               Some (word, daysAhead) \<Rightarrow> (setDate now (getDate now + daysAhead), Some word)
             | None \<Rightarrow> (now, None));
          (targetDate, matchedDay) =
            (case search weekdayAt lowerText of
               Some (m0, q, d) \<Rightarrow>
                 let isNext = (map_option toLowerCase q = Some ''next'');
                     targetDay = indexOf weekdays (toLowerCase d);
                     currentDay = getDay now;
                     daysUntil = targetDay - currentDay;
                     daysUntil = (if daysUntil \<le> 0 \<or> isNext then daysUntil + 7 else daysUntil)
                 in (setDate now (getDate now + daysUntil), Some m0)
             | None \<Rightarrow> (targetDate, matchedDay))
      in if includes_s lowerText ''next week'' \<or> search inAWeekAt lowerText \<noteq> None
         then (setDate now (getDate now + 7), Some ''next week'')
         else (targetDate, matchedDay))"

definition to24Hour :: "string option \<Rightarrow> int \<Rightarrow> int" where
  \<comment> \<open>lines 89 to 100\<close>
  "to24Hour period hours =
     (if period = Some ''pm'' \<and> hours \<noteq> 12 then hours + 12
      else if period = Some ''am'' \<and> hours = 12 then 0
      else if period = None \<and> hours < 12 \<and> hours \<noteq> 0
           then (if hours \<ge> 1 \<and> hours \<le> 7 then hours + 12 else hours)
      else hours)"

definition defaultTime :: "string \<Rightarrow> int \<Rightarrow> int" where
  \<comment> \<open>lines 118 to 129\<close>
  "defaultTime lowerText targetDate =
     (if includes_s lowerText ''morning'' then setHours4 targetDate 9 0 0 0
      else if includes_s lowerText ''afternoon'' then setHours4 targetDate 14 0 0 0
      else if includes_s lowerText ''evening'' \<or> includes_s lowerText ''tonight''
           then setHours4 targetDate 18 0 0 0
      else if includes_s lowerText ''night'' then setHours4 targetDate 21 0 0 0
      else setHours4 targetDate 9 0 0 0)"

definition applyTime :: "int \<Rightarrow> int \<Rightarrow> string option \<Rightarrow> string \<times> string \<times> string option \<times> string option \<Rightarrow> ParsedTime" where
  \<comment> \<open>lines 84 to 113: the clock time applied to the resolved day\<close>
  "applyTime now targetDate matchedDay timeMatch =
     (case timeMatch of (t0, g1, g2, g3) \<Rightarrow>
        let hours = to24Hour (map_option toLowerCase g3) (int (parseInt g1));
            minutes = (case g2 of Some m \<Rightarrow> int (parseInt m) | None \<Rightarrow> 0);
            targetDate = setHours4 targetDate hours minutes 0 0;
            targetDate = (if matchedDay = None \<and> targetDate \<le> now
                          then setDate targetDate (getDate targetDate + 1)
                          else targetDate)
        in \<lparr>date = Some (At targetDate),
            matched = Some (case matchedDay of
                              Some d \<Rightarrow> d @ '' at '' @ t0
                            | None \<Rightarrow> ''at '' @ t0)\<rparr>)"

definition noDayNoTime :: "string \<Rightarrow> int \<Rightarrow> int \<Rightarrow> ParsedTime" where
  \<comment> \<open>lines 134 to 157: the end of the day, the parts of today, and no match\<close>
  "noDayNoTime lowerText now targetDate =
     (if includes_s lowerText ''end of day'' \<or> includes_s lowerText ''eod''
      then let targetDate = setHours4 targetDate 17 0 0 0;
               targetDate = (if targetDate \<le> now
                             then setDate targetDate (getDate targetDate + 1)
                             else targetDate)
           in \<lparr>date = Some (At targetDate), matched = Some ''end of day''\<rparr>
      else if includes_s lowerText ''this morning''
      then \<lparr>date = Some (At (setHours4 targetDate 9 0 0 0)), matched = Some ''this morning''\<rparr>
      else if includes_s lowerText ''this afternoon''
      then \<lparr>date = Some (At (setHours4 targetDate 14 0 0 0)), matched = Some ''this afternoon''\<rparr>
      else if includes_s lowerText ''this evening''
      then \<lparr>date = Some (At (setHours4 targetDate 18 0 0 0)), matched = Some ''this evening''\<rparr>
      else \<lparr>date = None, matched = None\<rparr>)"

definition parseDayAndTime :: "string \<Rightarrow> int \<Rightarrow> ParsedTime" where
  \<comment> \<open>lines 35 to 157: what follows when the offset pattern found nothing\<close>
  "parseDayAndTime lowerText now =
     (let timeMatch = search timeAt lowerText;
          (targetDate, matchedDay) = resolveDay lowerText now
      in case timeMatch of
           Some tm \<Rightarrow> applyTime now targetDate matchedDay tm
         | None \<Rightarrow>
             (case matchedDay of
                Some d \<Rightarrow> \<lparr>date = Some (At (defaultTime lowerText targetDate)), matched = Some d\<rparr>
              | None \<Rightarrow> noDayNoTime lowerText now targetDate))"

definition parseTimeExpression :: "Zone \<Rightarrow> string \<Rightarrow> int \<Rightarrow> ParsedTime" where
  \<comment> \<open>\<open>now\<close> is the clock reading \<open>new Date()\<close> of line 12, \<open>z\<close> the zone of the host\<close>
  "parseTimeExpression z text now =
     (if text = [] then \<lparr>date = None, matched = None\<rparr>
      else let lowerText = toLowerCase text
           in case search inAt lowerText of
                Some (m0, g1, g2) \<Rightarrow>
                  \<lparr>date = Some (applyOffset z now (int (parseInt g1)) (toLowerCase g2)),
                   matched = Some m0\<rparr>
              | None \<Rightarrow> parseDayAndTime lowerText now)"

definition unitLength :: "string \<Rightarrow> int" where
  \<comment> \<open>the milliseconds in one unit of the offset pattern, for the statement of its
      property\<close>
  "unitLength u =
     (if u = ''minute'' \<or> u = ''min'' then msPerMinute
      else if u = ''hour'' \<or> u = ''hr'' then msPerHour
      else if u = ''day'' then msPerDay
      else 7 * msPerDay)"

subsection \<open>extractReminderContent\<close>

text \<open>
  \<open>text.replace(new RegExp(matched, 'i'), '')\<close> removes the leftmost occurrence of
  \<open>matched\<close>, compared without regard to case. The text that \<open>parseTimeExpression\<close>
  returns is made of letters, digits, colons and white space, which a pattern reads
  literally; \<open>removeFirstCI\<close> is the replacement for such a \<open>matched\<close>.
\<close>

fun removeFirstCI :: "string \<Rightarrow> string \<Rightarrow> string" where
  "removeFirstCI m [] = []"
| "removeFirstCI m (c # cs) =
     (if startsWithCI (c # cs) m then drop (length m) (c # cs) else c # removeFirstCI m cs)"

definition stripLeadingFiller :: "string \<Rightarrow> string" where
  \<comment> \<open>\<open>.replace(/^(to|about|that|for)\s+/i, '')\<close>\<close>
  "stripLeadingFiller s =
     (case firstAlternative [''to'', ''about'', ''that'', ''for''] s of
        None \<Rightarrow> s
      | Some w \<Rightarrow>
          let r = drop (length w) s
          in if takeWhile isSpace r = [] then s else dropWhile isSpace r)"

definition stripTrailingPreposition :: "string \<Rightarrow> string" where
  \<comment> \<open>\<open>.replace(/\s+(at|on|in|by|before|after)$/i, '')\<close>, read from the end of the string\<close>
  "stripTrailingPreposition s =
     (case firstAlternative (map rev [''at'', ''on'', ''in'', ''by'', ''before'', ''after'']) (rev s) of
        None \<Rightarrow> s
      | Some w \<Rightarrow>
          let r = drop (length w) (rev s)
          in if takeWhile isSpace r = [] then s else rev (dropWhile isSpace r))"

definition extractReminderContent :: "string \<Rightarrow> string option \<Rightarrow> string" where
  "extractReminderContent text matchedText =
     (if text = [] then []
      else case matchedText of
             None \<Rightarrow> text
           | Some m \<Rightarrow>
               if m = [] then text
               else let content = trim (removeFirstCI m text)
                    in trim (stripTrailingPreposition (stripLeadingFiller content)))"

subsection \<open>formatReminderTime\<close>

text \<open>
  The three strings that depend on the locale data of the host are parameters:
  \<open>toLocaleTimeString\<close> with hour and minute, \<open>toLocaleDateString\<close> with the long
  weekday, and \<open>toLocaleDateString\<close> with the short weekday, month, day, hour and minute.
  \<open>toDateString\<close> shows the weekday, the month, the day and the year, so two of them are
  equal when these four are.
\<close>

record Locale =
  timeString :: "int \<Rightarrow> string"
  weekdayLong :: "int \<Rightarrow> string"
  shortDateTime :: "int \<Rightarrow> string"

definition mathRoundDiv :: "int \<Rightarrow> int \<Rightarrow> int" where
  \<comment> \<open>\<open>Math.round(x / d)\<close> for a positive \<open>d\<close>: the nearest integer, a half rounded up\<close>
  "mathRoundDiv x d = (2 * x + d) div (2 * d)"

definition toDateString :: "int \<Rightarrow> int \<times> int \<times> int \<times> int" where
  "toDateString t = (WeekDay t, MonthFromTime t, DateFromTime t, YearFromTime t)"

definition formatReminderTime :: "Locale \<Rightarrow> int option \<Rightarrow> int \<Rightarrow> string" where
  \<comment> \<open>\<open>now\<close> is the clock reading of line 190\<close>
  "formatReminderTime loc d now =
     (case d of
        None \<Rightarrow> []
      | Some dt \<Rightarrow>
          let diffMs = dt - now;
              diffMins = mathRoundDiv diffMs 60000;
              diffHours = mathRoundDiv diffMs 3600000;
              diffDays = mathRoundDiv diffMs 86400000;
              isToday = (toDateString dt = toDateString now);
              tomorrow = setDate now (getDate now + 1);
              isTomorrow = (toDateString dt = toDateString tomorrow);
              timeStr = timeString loc dt
          in if diffMins < 60 then ''in '' @ numberToString diffMins @ '' minutes''
             else if diffHours < 24 \<and> isToday then ''today at '' @ timeStr
             else if isTomorrow then ''tomorrow at '' @ timeStr
             else if diffDays < 7 then weekdayLong loc dt @ '' at '' @ timeStr
             else shortDateTime loc dt)"

subsection \<open>The reminder text in the reminders plugin\<close>

definition stripRemindPrefix :: "string \<Rightarrow> string" where
  \<comment> \<open>\<open>.replace(/^(remind\s+me\s+to|remind\s+me|reminder|remind)\s*/i, '')\<close>\<close>
  "stripRemindPrefix s =
     (if \<not> startsWithCI s ''remind'' then s
      else let r1 = drop 6 s; r2 = dropWhile isSpace r1;
               r3 = drop 2 r2; r4 = dropWhile isSpace r3
           in if takeWhile isSpace r1 \<noteq> [] \<and> startsWithCI r2 ''me''
              then (if takeWhile isSpace r3 \<noteq> [] \<and> startsWithCI r4 ''to''
                    then dropWhile isSpace (drop 2 r4)
                    else dropWhile isSpace r3)
              else if startsWithCI r1 ''er'' then dropWhile isSpace (drop 2 r1)
              else dropWhile isSpace r1)"

text \<open>
  The \<open>create\<close> action of \<open>plugins.reminders.execute\<close> (part_001, lines 1879 to 1942), up
  to the row that it stores. It asks for a content when the content is absent or blank
  and stores nothing; \<open>toISOString\<close> throws a \<open>RangeError\<close> on an invalid date, before
  anything is stored; otherwise the row holds the text of the reminder and its time.
  An absent \<open>content\<close> or \<open>rawInput\<close> is the empty string; \<open>time\<close> is \<open>new Date(time)\<close>
  for the \<open>time\<close> passed, if one is; \<open>now\<close> is the clock reading of \<open>parseTimeExpression\<close>
  and \<open>later\<close> the one of \<open>Date.now()\<close>.
\<close>

datatype reminderOutcome = NothingToRemind | RangeError | Stored string int

definition createReminder ::
  "Zone \<Rightarrow> string \<Rightarrow> Date option \<Rightarrow> string \<Rightarrow> int \<Rightarrow> int \<Rightarrow> reminderOutcome" where
  "createReminder z content time rawInput now later =
     (if content = [] \<or> trim content = [] then NothingToRemind
      else let textToParse = (if rawInput \<noteq> [] then rawInput else content);
               parsed = parseTimeExpression z textToParse now;
               reminderContent = trim content
           in (case date parsed of
                 Some parsedDate \<Rightarrow>
                   (case toISOString parsedDate of
                      None \<Rightarrow> RangeError
                    | Some remindAt \<Rightarrow>
                        (let reminderContent =
                               (case matched parsed of
                                  Some m \<Rightarrow>
                                    if m \<noteq> [] \<and> rawInput \<noteq> []
                                    then trim (stripRemindPrefix (extractReminderContent rawInput (Some m)))
                                    else reminderContent
                                | None \<Rightarrow> reminderContent)
                         in Stored (if reminderContent = [] then trim content else reminderContent)
                              remindAt))
               | None \<Rightarrow>
                   (case (case time of Some t \<Rightarrow> toISOString t
                                     | None \<Rightarrow> toISOString (TimeClip (later + 3600000))) of
                      None \<Rightarrow> RangeError
                    | Some remindAt \<Rightarrow> Stored reminderContent remindAt)))"

section \<open>aiService.js\<close>

text \<open>
  A value read from the provider's answer is a JSON value (numbers are taken to be
  integers); \<open>undefined\<close> is \<open>None\<close>. \<open>JSON.parse\<close> is a parameter \<open>jsonParse\<close>,
  \<open>None\<close> when it throws. A call of a provider is a function of the user's input that
  returns the error thrown (\<open>Inl\<close>) or the text of the answer (\<open>Inr\<close>); the system prompt
  built from the stored data is part of that function.
\<close>

datatype json =
    JNull
  | JBool bool
  | JNum int
  | JStr string
  | JArr "json list"
  | JObj "(string \<times> json) list"

fun property :: "json \<Rightarrow> string \<Rightarrow> json option" where
  \<comment> \<open>\<open>v.k\<close> for a value \<open>v\<close> that is not \<open>null\<close>, for the keys read in this program\<close>
  "property (JObj kvs) k = map_of kvs k"
| "property v k = None"

fun truthy :: "json \<Rightarrow> bool" where
  "truthy JNull = False"
| "truthy (JBool b) = b"
| "truthy (JNum n) = (n \<noteq> 0)"
| "truthy (JStr s) = (s \<noteq> [])"
| "truthy (JArr xs) = True"
| "truthy (JObj kvs) = True"

definition truthyOpt :: "json option \<Rightarrow> bool" where
  "truthyOpt v = (case v of None \<Rightarrow> False | Some x \<Rightarrow> truthy x)"

definition jsonMatch :: "string \<Rightarrow> string option" where
  \<comment> \<open>\<open>responseText.match(/\{[\s\S]*\}/)\<close>: from the first opening brace to the last
      closing brace after it\<close>
  "jsonMatch responseText =
     (let r = dropWhile (\<lambda>c. c \<noteq> CHR ''{'') responseText;
          b = rev (dropWhile (\<lambda>c. c \<noteq> CHR ''}'') (rev r))
      in if b = [] then None else Some b)"

definition conversation :: "string \<Rightarrow> json" where
  \<comment> \<open>lines 233 to 237\<close>
  "conversation responseText =
     JObj [(''message'', JStr responseText), (''action'', JStr ''conversation''),
           (''params'', JObj [])]"

definition parseAIResponse :: "(string \<Rightarrow> json option) \<Rightarrow> string \<Rightarrow> json" where
  "parseAIResponse jsonParse responseText =
     (case jsonMatch responseText of
        None \<Rightarrow> conversation responseText
      | Some block \<Rightarrow>
          (case jsonParse block of
             Some v \<Rightarrow> v
           | None \<Rightarrow> conversation responseText))"

record AIResult =
  message :: "json option"
  action :: "json option"
  params :: json
  aiProcessed :: bool

definition keySet :: "string option \<Rightarrow> bool" where
  \<comment> \<open>an environment variable that is neither absent nor empty\<close>
  "keySet k = (case k of None \<Rightarrow> False | Some v \<Rightarrow> v \<noteq> [])"

definition processWithContextAI ::
  "string option \<Rightarrow> string option \<Rightarrow> (string \<Rightarrow> string + string) \<Rightarrow> (string \<Rightarrow> string + string)
   \<Rightarrow> (string \<Rightarrow> json option) \<Rightarrow> string \<Rightarrow> AIResult option" where
  \<comment> \<open>\<open>processWithAI\<close> of aiService.js, under the name PersonalAssistant imports it by;
      reading a property of \<open>null\<close> throws inside the \<open>try\<close>\<close>
  "processWithContextAI openaiKey anthropicKey callOpenAI callAnthropic jsonParse userInput =
     (if \<not> keySet openaiKey \<and> \<not> keySet anthropicKey then None
      else case (if keySet anthropicKey then callAnthropic userInput else callOpenAI userInput) of
             Inl error \<Rightarrow> None
           | Inr responseText \<Rightarrow>
               let parsed = parseAIResponse jsonParse responseText
               in if parsed = JNull then None
                  else Some \<lparr>message = property parsed ''message'',
                             action = property parsed ''action'',
                             params = (case property parsed ''params'' of
                                         None \<Rightarrow> JObj []
                                       | Some v \<Rightarrow> if truthy v then v else JObj []),
                             aiProcessed = True\<rparr>)"

section \<open>PersonalAssistant: processWithAI and processInput\<close>

subsection \<open>The action map and the parameters of a plugin\<close>

record ActionMapping =
  plugin :: string
  pluginAction :: string
  paramKey :: "string option"
  includeRawInput :: bool
  includeLocation :: bool

definition entry :: "string \<Rightarrow> string \<Rightarrow> ActionMapping" where
  "entry p a = \<lparr>plugin = p, pluginAction = a, paramKey = None, includeRawInput = False,
                 includeLocation = False\<rparr>"

definition actionMap :: "(string \<times> ActionMapping) list" where
  "actionMap =
     [(''note_create'', (entry ''notes'' ''create'')\<lparr>paramKey := Some ''content''\<rparr>),
      (''note_list'', entry ''notes'' ''list''),
      (''note_delete'', entry ''notes'' ''delete''),
      (''note_clear'', entry ''notes'' ''clear''),
      (''reminder_create'',
         (entry ''reminders'' ''create'')\<lparr>paramKey := Some ''content'', includeRawInput := True\<rparr>),
      (''reminder_list'', entry ''reminders'' ''list''),
      (''task_create'', (entry ''tasks'' ''create'')\<lparr>paramKey := Some ''content''\<rparr>),
      (''task_list'', entry ''tasks'' ''list''),
      (''list_add'', entry ''lists'' ''add''),
      (''list_show'', entry ''lists'' ''show''),
      (''list_create'', entry ''lists'' ''show''),
      (''search'',
         (entry ''search'' ''search'')\<lparr>paramKey := Some ''query'', includeLocation := True\<rparr>),
      (''text_send'', entry ''text'' ''send''),
      (''calendar_list'', entry ''calendar'' ''list''),
      (''calendar_create'', entry ''calendar'' ''create''),
      (''calendar_today'', entry ''calendar'' ''today''),
      (''email_check'', entry ''email'' ''inbox''),
      (''recording_start'', entry ''recording'' ''start''),
      (''contact_add'', entry ''contacts'' ''add''),
      (''contact_list'', entry ''contacts'' ''list''),
      (''contact_find'', entry ''contacts'' ''find''),
      (''contact_delete'', entry ''contacts'' ''delete'')]"

fun joinWith :: "string \<Rightarrow> string list \<Rightarrow> string" where
  "joinWith sep [] = []"
| "joinWith sep [x] = x"
| "joinWith sep (x # y # ys) = x @ sep @ joinWith sep (y # ys)"

text \<open>
  The conversion of a value to a string, \<open>None\<close> when it throws a \<open>TypeError\<close>. An object
  is converted by its method \<open>toString\<close>, then by \<open>valueOf\<close>. An object of the answer
  with a property \<open>toString\<close> of its own has no such method, since no value of the answer
  is a function, and \<open>valueOf\<close>, its own or the inherited one, gives no primitive value:
  the conversion throws. Every other object inherits the method that gives
  \<open>[object Object]\<close>. An array joins the strings of its elements, and throws when one of
  them does.
\<close>

fun toString :: "json \<Rightarrow> string option" where
  "toString JNull = Some ''null''"
| "toString (JBool b) = Some (if b then ''true'' else ''false'')"
| "toString (JNum n) = Some (numberToString n)"
| "toString (JStr s) = Some s"
| "toString (JArr xs) =
     map_option (joinWith '','') (those (map (\<lambda>x. if x = JNull then Some [] else toString x) xs))"
| "toString (JObj kvs) = (if map_of kvs ''toString'' \<noteq> None then None else Some ''[object Object]'')"

definition toPropertyKey :: "json option \<Rightarrow> string option" where
  \<comment> \<open>the key that \<open>actionMap[aiResult.action]\<close> looks up, \<open>None\<close> when the conversion
      throws\<close>
  "toPropertyKey v = (case v of None \<Rightarrow> Some ''undefined'' | Some x \<Rightarrow> toString x)"

definition conversionError :: string where
  \<comment> \<open>the message of the \<open>TypeError\<close> of a failed conversion, in the words of V8\<close>
  "conversionError = ''Cannot convert object to primitive value''"

definition lookupAction :: "json option \<Rightarrow> string + ActionMapping option" where
  \<comment> \<open>\<open>actionMap[aiResult.action]\<close> (line 3032): the error thrown, or the entry found, if
      any\<close>
  "lookupAction a =
     (case toPropertyKey a of
        None \<Rightarrow> Inl conversionError
      | Some key \<Rightarrow> Inr (map_of actionMap key))"

text \<open>
  \<open>actionMap\<close> and \<open>plugins\<close> are object literals. A key that they inherit (such as
  \<open>constructor\<close>) gives a value without a \<open>plugin\<close> property, hence no plugin, and the
  branch taken is the one of an absent key.
\<close>

type_synonym client = "nat option"

datatype pvalue = PJson json | PClient client

type_synonym pluginParams = "string \<rightharpoonup> pvalue"

fun spread :: "json \<Rightarrow> (string \<times> json) list" where
  \<comment> \<open>the own properties that \<open>...v\<close> copies\<close>
  "spread (JObj kvs) = kvs"
| "spread (JArr xs) = zip (map natToString [0..<length xs]) xs"
| "spread (JStr s) = zip (map natToString [0..<length s]) (map (\<lambda>c. JStr [c]) s)"
| "spread v = []"

record ExecutionResult =
  success :: bool
  resultMessage :: "string option"
  tasks :: "string list option"
  reminders :: "string list option"
  notes_r :: "string list option"
  items :: "string list option"
  listName :: "string option"
  openRecorder :: bool

text \<open>
  Of an element of \<open>tasks\<close>, \<open>reminders\<close> and \<open>notes\<close> the record keeps the \<open>content\<close>, of
  an element of \<open>items\<close> the \<open>item\<close>. The \<open>execute\<close> of a plugin is a function from its
  parameters to the error it throws or the result it returns.
\<close>

type_synonym execute = "pluginParams \<Rightarrow> string + ExecutionResult"

record Response =
  responseMessage :: "json option"
  responseAction :: "json option"
  responseData :: "ExecutionResult option"

text \<open>
  What the pipeline does besides changing its state is recorded in order: the plugin whose
  \<open>execute\<close> was called, a run of the keyword cascade, a message spoken, a call of the
  callback \<open>onAction\<close>.
\<close>

datatype effect = Executed string | KeywordsRun | Spoke "json option" | Notified "json option"

definition bullet :: string where
  \<comment> \<open>the bullet U+2022, as its three bytes in UTF-8\<close>
  "bullet = [CHR 0xE2, CHR 0x80, CHR 0xA2]"

definition newline :: string where
  "newline = [CHR 0x0A]"

definition bulleted :: "string list \<Rightarrow> string" where
  "bulleted xs = joinWith newline (map (\<lambda>x. bullet @ '' '' @ x) xs)"

definition nonEmpty :: "string list option \<Rightarrow> bool" where
  \<comment> \<open>\<open>xs?.length\<close> as a condition\<close>
  "nonEmpty xs = (case xs of None \<Rightarrow> False | Some l \<Rightarrow> l \<noteq> [])"

subsection \<open>processWithAI\<close>

definition buildParams :: "ActionMapping \<Rightarrow> client \<Rightarrow> string option \<Rightarrow> AIResult \<Rightarrow> string \<Rightarrow> pluginParams" where
  \<comment> \<open>lines 3036 to 3055; \<open>savedLocation\<close> is what local storage holds for the user's
      location\<close>
  "buildParams mapping supabaseClient savedLocation aiResult userInput =
     (let pluginParams =
            fold (\<lambda>(k, v) m. m(k \<mapsto> PJson v)) (spread (params aiResult))
              [''action'' \<mapsto> PJson (JStr (pluginAction mapping)),
               ''supabase'' \<mapsto> PClient supabaseClient];
          pluginParams =
            (case (paramKey mapping, property (params aiResult) ''content'') of
               (Some k, Some c) \<Rightarrow> if truthy c then pluginParams(k \<mapsto> PJson c) else pluginParams
             | _ \<Rightarrow> pluginParams);
          pluginParams =
            (if includeRawInput mapping then pluginParams(''rawInput'' \<mapsto> PJson (JStr userInput))
             else pluginParams)
      in if includeLocation mapping
         then pluginParams(''userLocation'' \<mapsto>
                PJson (JStr (case savedLocation of Some l \<Rightarrow> l | None \<Rightarrow> [])))
         else pluginParams)"

definition elements :: "string list option \<Rightarrow> string list" where
  "elements xs = (case xs of None \<Rightarrow> [] | Some l \<Rightarrow> l)"

definition formatResult :: "ActionMapping \<Rightarrow> AIResult \<Rightarrow> ExecutionResult \<Rightarrow> Response" where
  \<comment> \<open>lines 3059 to 3083\<close>
  "formatResult mapping aiResult result =
     (let listing = (pluginAction mapping = ''list'' \<and> success result);
          listed = (\<lambda>title xs. \<lparr>responseMessage = Some (JStr (title @ '':'' @ newline @ bulleted (elements xs))),
                                 responseAction = Some (JStr (plugin mapping)),
                                 responseData = Some result\<rparr>)
      in if listing \<and> nonEmpty (tasks result) then listed ''Your tasks'' (tasks result)
         else if listing \<and> nonEmpty (reminders result) then listed ''Your reminders'' (reminders result)
         else if listing \<and> nonEmpty (notes_r result) then listed ''Your notes'' (notes_r result)
         else if listing \<and> nonEmpty (items result)
              then listed (case listName result of
                             None \<Rightarrow> ''List''
                           | Some n \<Rightarrow> if n = [] then ''List'' else n) (items result)
         else \<lparr>responseMessage = (case resultMessage result of
                                     None \<Rightarrow> message aiResult
                                   | Some m \<Rightarrow> if m = [] then message aiResult else Some (JStr m)),
               responseAction = Some (JStr (plugin mapping)),
               responseData = Some result\<rparr>)"

definition processWithAI ::
  "(string \<rightharpoonup> execute) \<Rightarrow> client \<Rightarrow> string option \<Rightarrow> AIResult option \<Rightarrow> string
   \<Rightarrow> (string + Response option) \<times> effect list" where
  \<comment> \<open>lines 2999 to 3092, from the result of \<open>processWithContextAI\<close> on: the error thrown
      (\<open>Inl\<close>) or the value returned (\<open>Inr\<close>); the second component lists the plugin
      executed, if one was. The lookup of line 3032 is outside the \<open>try\<close> of lines 3035 to
      3087, so its error leaves the function\<close>
  "processWithAI plugins supabaseClient savedLocation aiResult userInput =
     (case aiResult of
        None \<Rightarrow> (Inr None, [])
      | Some ai \<Rightarrow>
          let unchanged = \<lparr>responseMessage = message ai, responseAction = action ai,
                           responseData = None\<rparr>
          in (case lookupAction (action ai) of
                Inl error \<Rightarrow> (Inl error, [])
              | Inr None \<Rightarrow> (Inr (Some unchanged), [])
              | Inr (Some mapping) \<Rightarrow>
                  (case plugins (plugin mapping) of
                     None \<Rightarrow> (Inr (Some unchanged), [])
                   | Some exec \<Rightarrow>
                       (case exec (buildParams mapping supabaseClient savedLocation ai userInput) of
                          Inl error \<Rightarrow> (Inr (Some unchanged), [Executed (plugin mapping)])
                        | Inr result \<Rightarrow>
                            (Inr (Some (formatResult mapping ai result)),
                             [Executed (plugin mapping)])))))"

subsection \<open>processInput\<close>

text \<open>
  The keyword cascade \<open>processWithKeywords\<close> (lines 3095 to 3472) is a parameter: the
  error it throws, which is also the error of a plugin it runs, or the response it
  returns. So is the callback \<open>onAction\<close> of the component, which returns the error it
  throws, if any.
\<close>

record Env =
  openaiKey :: "string option"
  anthropicKey :: "string option"
  callOpenAI :: "string \<Rightarrow> string + string"
  callAnthropic :: "string \<Rightarrow> string + string"
  jsonParse :: "string \<Rightarrow> json option"
  plugins :: "string \<rightharpoonup> execute"
  supabaseClient :: client
  savedLocation :: "string option"
  processWithKeywords :: "string \<Rightarrow> string + Response"
  onAction :: "(json option \<Rightarrow> ExecutionResult option \<Rightarrow> string option) option"

record ChatMessage =
  role :: string
  content :: "json option"
  messageAction :: "json option"

record State =
  messages :: "ChatMessage list"
  input :: string
  transcript :: string
  isProcessing :: bool
  showRecorder :: bool
  effects :: "effect list"

definition addMessage :: "ChatMessage \<Rightarrow> State \<Rightarrow> State" where
  \<comment> \<open>\<open>setMessages(prev => [...prev, m])\<close>\<close>
  "addMessage m st = st\<lparr>messages := messages st @ [m]\<rparr>"

definition addEffects :: "effect list \<Rightarrow> State \<Rightarrow> State" where
  "addEffects fx st = st\<lparr>effects := effects st @ fx\<rparr>"

definition showResponse :: "Env \<Rightarrow> string \<Rightarrow> Response \<Rightarrow> State \<Rightarrow> string option \<times> State" where
  \<comment> \<open>lines 2961 to 2983, with the \<open>transcript\<close> that the function closed over; the first
      component is the error thrown, if any\<close>
  "showResponse env heard response st =
     (let st = addMessage \<lparr>role = ''assistant'', content = responseMessage response,
                           messageAction = responseAction response\<rparr> st;
          st = (case responseData response of
                  None \<Rightarrow> st
                | Some d \<Rightarrow> if openRecorder d then st\<lparr>showRecorder := True\<rparr> else st);
          st = (if heard \<noteq> [] then addEffects [Spoke (responseMessage response)] st else st)
      in case onAction env of
           None \<Rightarrow> (None, st)
         | Some callback \<Rightarrow>
             if truthyOpt (responseAction response)
             then (callback (responseAction response) (responseData response),
                   addEffects [Notified (responseAction response)] st)
             else (None, st))"

definition tryBlock :: "Env \<Rightarrow> string \<Rightarrow> string \<Rightarrow> State \<Rightarrow> string option \<times> State" where
  \<comment> \<open>lines 2950 to 2984: the error thrown, if any, and the state reached\<close>
  "tryBlock env userInput heard st =
     (let aiResult = processWithContextAI (openaiKey env) (anthropicKey env) (callOpenAI env)
                       (callAnthropic env) (jsonParse env) userInput;
          (response, fx) = processWithAI (plugins env) (supabaseClient env) (savedLocation env)
                             aiResult userInput;
          st = addEffects fx st
      in case response of
           Inl error \<Rightarrow> (Some error, st)
         | Inr (Some r) \<Rightarrow> showResponse env heard r st
         | Inr None \<Rightarrow>
             (case processWithKeywords env userInput of
                Inl error \<Rightarrow> (Some error, addEffects [KeywordsRun] st)
              | Inr r \<Rightarrow> showResponse env heard r (addEffects [KeywordsRun] st)))"

definition failureMessage :: "string \<Rightarrow> ChatMessage" where
  \<comment> \<open>lines 2987 to 2991: the message of the \<open>catch\<close> block\<close>
  "failureMessage error =
     \<lparr>role = ''assistant'', content = Some (JStr (''Sorry, I encountered an error: '' @ error)),
      messageAction = None\<rparr>"

definition processInput :: "Env \<Rightarrow> string \<Rightarrow> State \<Rightarrow> State" where
  "processInput env userInput st =
     (if trim userInput = [] then st
      else let st1 = (addMessage \<lparr>role = ''user'', content = Some (JStr userInput),
                                   messageAction = None\<rparr> st)
                       \<lparr>input := [], transcript := [], isProcessing := True\<rparr>;
               (thrown, st2) = tryBlock env userInput (transcript st) st1;
               st3 = (case thrown of
                        None \<Rightarrow> st2
                      | Some error \<Rightarrow> addMessage (failureMessage error) st2)
           in st3\<lparr>isProcessing := False\<rparr>)"

subsection \<open>An example exchange\<close>

text \<open>
  An answer of the provider that asks for a note, the value \<open>JSON.parse\<close> gives for it, and
  an environment with a key for Anthropic, this answer for every input, and no callback.
  Its only plugin is \<open>notes\<close>, given as a parameter.
\<close>

definition quoted :: "string \<Rightarrow> string" where
  "quoted s = [CHR 0x22] @ s @ [CHR 0x22]"

definition noteAnswer :: string where
  "noteAnswer =
     ''{'' @ quoted ''message'' @ '': '' @ quoted ''Saved your note!'' @ '', ''
       @ quoted ''action'' @ '': '' @ quoted ''note_create'' @ '', ''
       @ quoted ''params'' @ '': {'' @ quoted ''content'' @ '': '' @ quoted ''buy milk'' @ ''}}''"


definition parseNoteAnswer :: "string \<Rightarrow> json option" where
  "parseNoteAnswer block =
     (if block = noteAnswer
      then Some (JObj [(''message'', JStr ''Saved your note!''), (''action'', JStr ''note_create''),
                       (''params'', JObj [(''content'', JStr ''buy milk'')])])
      else None)"

definition noteEnv :: "execute \<Rightarrow> (string \<Rightarrow> string + Response) \<Rightarrow> Env" where
  "noteEnv notesExecute keywords =
     \<lparr>openaiKey = None, anthropicKey = Some ''sk-ant-example'',
      callOpenAI = (\<lambda>userInput. Inl ''OpenAI API error''),
      callAnthropic = (\<lambda>userInput. Inr noteAnswer),
      jsonParse = parseNoteAnswer,
      plugins = [''notes'' \<mapsto> notesExecute],
      supabaseClient = None, savedLocation = None,
      processWithKeywords = keywords, onAction = None\<rparr>"

definition idle :: State where
  "idle = \<lparr>messages = [], input = [], transcript = [], isProcessing = False,
           showRecorder = False, effects = []\<rparr>"





subsection \<open>Example zones\<close>

text \<open>
  A zone at UTC, and the Eastern zone of the United States around 1 November 2026, when
  its clocks go back from 02:00 to 01:00 at 06:00 UTC: the offset is four hours before
  that instant and five hours from it on, and a local time before 02:00 of that day is
  read with the offset of four hours.
\<close>

definition utc :: Zone where
  "utc = \<lparr>utcOffset = (\<lambda>t. 0), localOffset = (\<lambda>t. 0)\<rparr>"

definition eastern :: Zone where
  "eastern =
     \<lparr>utcOffset = (\<lambda>t. if t < 1793512800000 then - 4 * msPerHour else - 5 * msPerHour),
      localOffset = (\<lambda>t. if t < 1793512800000 - 4 * msPerHour then - 4 * msPerHour
                          else - 5 * msPerHour)\<rparr>"

section \<open>Evaluation of the character functions\<close>

text \<open>
  The functions on characters, computed on the eight bits of a character. Each equation is
  checked on all 256 characters.
\<close>

lemma isDigit_Char [code]:
  "isDigit (Char b0 b1 b2 b3 b4 b5 b6 b7) =
     (\<not> b7 \<and> \<not> b6 \<and> b5 \<and> b4 \<and> (\<not> b3 \<or> (\<not> b2 \<and> \<not> b1)))"
  by (cases b0; cases b1; cases b2; cases b3; cases b4; cases b5; cases b6; cases b7;
      simp add: isDigit_def code_def)

lemma isSpace_Char [code]:
  "isSpace (Char b0 b1 b2 b3 b4 b5 b6 b7) =
     (\<not> b6 \<and> \<not> b4 \<and>
      ((\<not> b7 \<and> \<not> b5 \<and> b3 \<and> (if b2 then \<not> b1 else b1 \<or> b0))
       \<or> (b5 \<and> \<not> b3 \<and> \<not> b2 \<and> \<not> b1 \<and> \<not> b0)))"
  by (cases b0; cases b1; cases b2; cases b3; cases b4; cases b5; cases b6; cases b7;
      simp add: isSpace_def code_def)

lemma toLowerChar_Char [code]:
  "toLowerChar (Char b0 b1 b2 b3 b4 b5 b6 b7) =
     (if b6 \<and> \<not> b5 \<and>
         (if b7 then \<not> (b4 \<and> b2 \<and> b1 \<and> b0)
          else (b4 \<or> b3 \<or> b2 \<or> b1 \<or> b0) \<and> \<not> (b4 \<and> b3 \<and> (b2 \<or> (b1 \<and> b0))))
      then Char b0 b1 b2 b3 b4 True b6 b7 else Char b0 b1 b2 b3 b4 b5 b6 b7)"
  by (cases b0; cases b1; cases b2; cases b3; cases b4; cases b5; cases b6; cases b7;
      simp add: toLowerChar_def code_def char_of_def bit_iff_odd)

lemma digitValue_Char [code]:
  "digitValue (Char b0 b1 b2 b3 b4 b5 b6 b7) =
     (of_bool b0 + 2 * of_bool b1 + 4 * of_bool b2 + 8 * of_bool b3 + 16 * of_bool b4
      + 32 * of_bool b5 + 64 * of_bool b6 + 128 * of_bool b7) - 48"
  by (simp add: digitValue_def code_def)

section \<open>Arithmetic of dates\<close>

lemma time_decomposition:
  "Day t * msPerDay + HourFromTime t * msPerHour + MinFromTime t * msPerMinute
     + SecFromTime t * msPerSecond + msFromTime t = t"
proof -
  define s where "s = t div 1000"
  define m where "m = s div 60"
  define h where "h = m div 60"
  define d where "d = h div 24"
  have 1: "t div 60000 = m"
    unfolding m_def s_def by (simp add: div_mult2_eq[symmetric])
  have 2: "t div 3600000 = h"
    unfolding h_def m_def s_def by (simp add: div_mult2_eq[symmetric])
  have 3: "t div 86400000 = d"
    unfolding d_def h_def m_def s_def by (simp add: div_mult2_eq[symmetric])
  have "t = s * 1000 + t mod 1000" unfolding s_def by simp
  moreover have "s = m * 60 + s mod 60" unfolding m_def by simp
  moreover have "m = h * 60 + m mod 60" unfolding h_def by simp
  moreover have "h = d * 24 + h mod 24" unfolding d_def by simp
  ultimately show ?thesis
    unfolding Day_def HourFromTime_def MinFromTime_def SecFromTime_def msFromTime_def
      msPerDay_def msPerHour_def msPerMinute_def msPerSecond_def 1 2 3
    unfolding s_def[symmetric] m_def[symmetric] h_def[symmetric]
    by (simp add: algebra_simps)
qed

lemma setMinutes_add: "setMinutes t (getMinutes t + k) = t + k * msPerMinute"
  using time_decomposition[of t]
  by (simp add: setMinutes_def getMinutes_def MakeDate_def MakeTime_def algebra_simps)

lemma setHours_add: "setHours t (getHours t + k) = t + k * msPerHour"
  using time_decomposition[of t]
  by (simp add: setHours_def getHours_def MakeDate_def MakeTime_def algebra_simps)

lemma MonthFromTime_range: "0 \<le> MonthFromTime t \<and> MonthFromTime t \<le> 11"
  by (simp add: MonthFromTime_def Let_def)

lemma setDate_add: "setDate t (getDate t + k) = t + k * msPerDay"
proof -
  have m: "MonthFromTime t div 12 = 0" "MonthFromTime t mod 12 = MonthFromTime t"
    using MonthFromTime_range[of t] by auto
  have "MakeDay (YearFromTime t) (MonthFromTime t) (getDate t + k) = Day t + k"
    by (simp add: MakeDay_def m getDate_def DateFromTime_def DayWithinYear_def)
  moreover have "Day t * msPerDay + TimeWithinDay t = t"
    by (simp add: Day_def TimeWithinDay_def)
  ultimately show ?thesis
    by (simp add: setDate_def MakeDate_def algebra_simps)
qed

lemma setMinutesIn_add:
  "setMinutesIn z t (getMinutesIn z t + k) = TimeClip (UTC z (LocalTime z t + k * msPerMinute))"
  by (simp add: setMinutesIn_def getMinutesIn_def setMinutes_add)

lemma setHoursIn_add:
  "setHoursIn z t (getHoursIn z t + k) = TimeClip (UTC z (LocalTime z t + k * msPerHour))"
  by (simp add: setHoursIn_def getHoursIn_def setHours_add)

lemma setDateIn_add:
  "setDateIn z t (getDateIn z t + k) = TimeClip (UTC z (LocalTime z t + k * msPerDay))"
  by (simp add: setDateIn_def getDateIn_def setDate_add)

lemma same_offset:
  "localOffset z (LocalTime z t + k) = utcOffset z t \<Longrightarrow> UTC z (LocalTime z t + k) = t + k"
  by (simp add: UTC_def LocalTime_def)

section \<open>Decimal digits\<close>

lemma parseInt_snoc: "parseInt (ds @ [c]) = 10 * parseInt ds + digitValue c"
  by (simp add: parseInt_def)

lemma digitValue_char_of: "(d::nat) < 10 \<Longrightarrow> digitValue (char_of (48 + d)) = d"
  by (simp add: digitValue_def code_def)

lemma isDigit_char_of: "(d::nat) < 10 \<Longrightarrow> isDigit (char_of (48 + d))"
  by (simp add: isDigit_def code_def)

lemma parseInt_natToString: "parseInt (natToString n) = n"
proof (induction n rule: natToString.induct)
  case (1 n)
  show ?case
  proof (cases "n < 10")
    case True
    then have "natToString n = [char_of (48 + n)]" by (subst natToString.simps) simp
    then show ?thesis
      using digitValue_char_of[OF True] by (simp add: parseInt_def)
  next
    case False
    then have "parseInt (natToString n) = 10 * parseInt (natToString (n div 10)) + n mod 10"
      using digitValue_char_of[of "n mod 10"]
      by (subst natToString.simps) (simp add: parseInt_snoc)
    then show ?thesis using 1 False by simp
  qed
qed

lemma natToString_digits: "natToString n \<noteq> [] \<and> (\<forall>c\<in>set (natToString n). isDigit c)"
proof (induction n rule: natToString.induct)
  case (1 n)
  show ?case
  proof (cases "n < 10")
    case True
    then have "natToString n = [char_of (48 + n)]" by (subst natToString.simps) simp
    then show ?thesis using isDigit_char_of[OF True] by simp
  next
    case False
    then have "natToString n = natToString (n div 10) @ [char_of (48 + n mod 10)]"
      by (subst natToString.simps) simp
    moreover have "isDigit (char_of (48 + n mod 10))" by (rule isDigit_char_of) simp
    ultimately show ?thesis using 1 False by simp
  qed
qed

section \<open>Matching the offset pattern\<close>

lemma digit_not_space: "isDigit c \<Longrightarrow> \<not> isSpace c"
  by (cases c) (auto simp: isDigit_Char isSpace_Char)

lemma toLowerChar_digit: "isDigit c \<Longrightarrow> toLowerChar c = c"
  by (cases c) (auto simp: isDigit_Char toLowerChar_Char)

lemma toLowerChar_space: "isSpace c \<Longrightarrow> toLowerChar c = c"
  by (cases c) (auto simp: isSpace_Char toLowerChar_Char split: if_splits)

lemma search_skip:
  "(\<And>k. k < length pre \<Longrightarrow> at (drop k (pre @ s)) = None) \<Longrightarrow> search at (pre @ s) = search at s"
proof (induction pre)
  case Nil
  then show ?case by simp
next
  case (Cons c cs)
  have "at (drop 0 ((c # cs) @ s)) = None" using Cons.prems[of 0] by simp
  moreover have "search at (cs @ s) = search at s"
  proof (rule Cons.IH)
    fix k assume "k < length cs"
    then show "at (drop k (cs @ s)) = None" using Cons.prems[of "Suc k"] by simp
  qed
  ultimately show ?case by simp
qed

lemma search_here: "at s = Some r \<Longrightarrow> search at s = Some r"
  by (cases s) simp_all

lemma takeWhile_run:
  "\<forall>c\<in>set xs. P c \<Longrightarrow> (ys = [] \<or> \<not> P (hd ys)) \<Longrightarrow> takeWhile P (xs @ ys) = xs"
  by (cases ys) (auto simp: takeWhile_append2)

lemma dropWhile_run:
  "\<forall>c\<in>set xs. P c \<Longrightarrow> (ys = [] \<or> \<not> P (hd ys)) \<Longrightarrow> dropWhile P (xs @ ys) = ys"
  by (cases ys) (auto simp: dropWhile_append2)

lemma unit_head: "u \<in> set unitWords \<Longrightarrow> u \<noteq> [] \<and> \<not> isSpace (hd u) \<and> \<not> isDigit (hd u)"
  by (auto simp: unitWords_def isSpace_Char isDigit_Char)

lemma firstAlternative_unit:
  assumes "u \<in> set unitWords" "u = ''min'' \<Longrightarrow> \<not> startsWithCI rest ''ute''"
  shows "firstAlternative unitWords (u @ rest) = Some u"
  using assms
  by (simp add: unitWords_def)
     (elim disjE; simp add: unitWords_def firstAlternative_def startsWithCI_def toLowerCase_def
        toLowerChar_Char)

lemma startsWithCI_append_lit: "startsWithCI (w @ r) w"
  by (simp add: startsWithCI_def)

lemma inAt_phrase:
  assumes ws: "ws \<noteq> []" "\<forall>c\<in>set ws. isSpace c"
    and ds: "ds \<noteq> []" "\<forall>c\<in>set ds. isDigit c"
    and ws': "\<forall>c\<in>set ws'. isSpace c"
    and u: "u \<in> set unitWords" "u = ''min'' \<Longrightarrow> \<not> startsWithCI rest ''ute''"
  shows "inAt (''in'' @ ws @ ds @ ws' @ u @ rest) =
           Some (''in'' @ ws @ ds @ ws' @ u @ (if startsWithCI rest ''s'' then take 1 rest else []), ds, u)"
proof -
  let ?s = "''in'' @ ws @ ds @ ws' @ u @ rest"
  have hd_ds: "\<not> isSpace (hd ds)" using ds by (cases ds) (auto simp: digit_not_space)
  have hd_u: "u \<noteq> []" "\<not> isSpace (hd u)" "\<not> isDigit (hd u)" using unit_head[OF u(1)] by auto
  have hd1: "\<not> isSpace (hd (ds @ ws' @ u @ rest))" using hd_ds ds by simp
  have hd2: "\<not> isDigit (hd (ws' @ u @ rest))"
    using ws' hd_u by (cases ws') (auto dest: digit_not_space)
  have hd3: "\<not> isSpace (hd (u @ rest))" using hd_u by simp
  have a: "startsWithCI ?s ''in''" using startsWithCI_append_lit[of "''in''"] by simp
  have r1: "drop 2 ?s = ws @ ds @ ws' @ u @ rest" by simp
  have t1: "takeWhile isSpace (ws @ ds @ ws' @ u @ rest) = ws"
    using takeWhile_run[OF ws(2), of "ds @ ws' @ u @ rest"] hd1 by simp
  have d1: "dropWhile isSpace (ws @ ds @ ws' @ u @ rest) = ds @ ws' @ u @ rest"
    using dropWhile_run[OF ws(2), of "ds @ ws' @ u @ rest"] hd1 by simp
  have t2: "takeWhile isDigit (ds @ ws' @ u @ rest) = ds"
    using takeWhile_run[OF ds(2), of "ws' @ u @ rest"] hd2 by simp
  have d2: "dropWhile isDigit (ds @ ws' @ u @ rest) = ws' @ u @ rest"
    using dropWhile_run[OF ds(2), of "ws' @ u @ rest"] hd2 by simp
  have d3: "dropWhile isSpace (ws' @ u @ rest) = u @ rest"
    using dropWhile_run[OF ws', of "u @ rest"] hd3 by simp
  have f: "firstAlternative unitWords (u @ rest) = Some u"
    by (rule firstAlternative_unit[OF u])
  have len: "length ?s - length rest = length (''in'' @ ws @ ds @ ws' @ u)" by simp
  have tk0: "take (length ?s - length rest) ?s = ''in'' @ ws @ ds @ ws' @ u"
    unfolding len by (simp del: append_assoc add: append_assoc[symmetric])
  show ?thesis
  proof (cases "startsWithCI rest ''s''")
    case False
    then show ?thesis
      unfolding inAt_def using a ws(1) ds(1) tk0
      by (simp only: r1 t1 d1 t2 d2 d3 f Let_def) simp
  next
    case True
    then obtain c rest' where rest: "rest = c # rest'"
      by (cases rest) (auto simp: startsWithCI_def toLowerCase_def)
    have len': "length ?s - length (drop 1 rest) = length (''in'' @ ws @ ds @ ws' @ u @ [c])"
      by (simp add: rest)
    have tk1: "take (length ?s - length (drop 1 rest)) ?s = ''in'' @ ws @ ds @ ws' @ u @ [c]"
      unfolding len' by (simp add: rest)
    from True show ?thesis
      unfolding inAt_def using a ws(1) ds(1) tk1
      by (simp only: r1 t1 d1 t2 d2 d3 f Let_def) (simp add: rest)
  qed
qed

lemma unitWords_cases:
  "u \<in> set unitWords \<Longrightarrow>
     u = ''minute'' \<or> u = ''min'' \<or> u = ''hour'' \<or> u = ''hr'' \<or> u = ''day'' \<or> u = ''week''"
  by (simp add: unitWords_def)

lemma toLowerCase_unit: "u \<in> set unitWords \<Longrightarrow> toLowerCase u = u"
  by (drule unitWords_cases) (elim disjE; simp add: toLowerCase_def toLowerChar_Char)

lemma applyOffset_unit:
  "u \<in> set unitWords \<Longrightarrow>
     applyOffset z now n u = TimeClip (UTC z (LocalTime z now + n * unitLength u))"
  by (drule unitWords_cases)
     (elim disjE; simp add: applyOffset_def unitLength_def startsWith_def
        setMinutesIn_add setHoursIn_add setDateIn_add mult.assoc)

lemma all_below: "(\<forall>k<n. P k) = list_all P [0..<n]"
  by (auto simp: list_all_iff)

section \<open>Days and weekdays\<close>

lemma Day_add: "Day (t + k * msPerDay) = Day t + k"
  by (simp add: Day_def msPerDay_def)

lemma setHours4_value: "setHours4 t h m 0 0 = Day t * msPerDay + h * msPerHour + m * msPerMinute"
  by (simp add: setHours4_def MakeDate_def MakeTime_def)

lemma Day_bounds: "Day t * msPerDay \<le> t \<and> t < Day t * msPerDay + msPerDay"
proof -
  have "t = Day t * msPerDay + t mod msPerDay" by (simp add: Day_def)
  moreover have "0 \<le> t mod msPerDay" "t mod msPerDay < msPerDay" by (simp_all add: msPerDay_def)
  ultimately show ?thesis by linarith
qed

lemma getDay_range: "0 \<le> getDay t \<and> getDay t \<le> 6"
  by (simp add: getDay_def WeekDay_def)

lemma next_friday_resolveDay:
  "resolveDay ''next friday'' now = (now + (12 - getDay now) * msPerDay, Some ''next friday'')"
proof -
  have 1: "find (\<lambda>(word, daysAhead). includes_s ''next friday'' word) dayWords = None"
    by code_simp
  have 2: "search weekdayAt ''next friday'' = Some (''next friday'', Some ''next'', ''friday'')"
    by code_simp
  have 3: "toLowerCase ''next'' = ''next''" "indexOf weekdays (toLowerCase ''friday'') = 5"
    by code_simp+
  have 4: "\<not> includes_s ''next friday'' ''next week''" "search inAWeekAt ''next friday'' = None"
    by code_simp+
  have 5: "5 - getDay now + 7 = 12 - getDay now" by simp
  show ?thesis
    unfolding resolveDay_def 1 2
    by (simp add: 3 4 setDate_add Let_def 5 del: search.simps includes_s.simps)
qed

lemma setHours4_MakeDate: "setHours4 t h m 0 0 = MakeDate (Day t) (MakeTime h m 0 0)"
  by (simp add: setHours4_def)

lemma MakeDate_next_day: "MakeDate D x + msPerDay = MakeDate (D + 1) x"
  by (simp add: MakeDate_def algebra_simps)

lemma to24Hour_bare: "to24Hour None h = (if 1 \<le> h \<and> h \<le> 7 then h + 12 else h)"
  by (simp add: to24Hour_def)

section \<open>Properties of parseTimeExpression\<close>

text \<open>
  C4. For every text and every clock reading, the two fields of the result of
  \<open>parseTimeExpression\<close> are set or cleared together: \<open>date\<close> is present exactly when
  \<open>matched\<close> is. In particular a result without a date has no matched text.
\<close>

theorem parseTimeExpression_fields_together:
  "(date (parseTimeExpression z text now) \<noteq> None) = (matched (parseTimeExpression z text now) \<noteq> None)"
  by (simp add: parseTimeExpression_def parseDayAndTime_def applyTime_def noDayNoTime_def Let_def
      split: option.splits prod.splits)

theorem parseTimeExpression_fields_together_witness:
  "date (parseTimeExpression utc ''call John in 30 minutes'' 1793692800000) \<noteq> None
   \<and> matched (parseTimeExpression utc ''call John in 30 minutes'' 1793692800000) \<noteq> None
   \<and> date (parseTimeExpression utc ''call John'' 1793692800000) = None
   \<and> matched (parseTimeExpression utc ''call John'' 1793692800000) = None"
proof -
  have a: "matched (parseTimeExpression utc ''call John in 30 minutes'' 1793692800000) \<noteq> None"
    by code_simp
  have b: "matched (parseTimeExpression utc ''call John'' 1793692800000) = None"
    by code_simp
  show ?thesis
    using a b parseTimeExpression_fields_together [of utc "''call John in 30 minutes''" 1793692800000]
      parseTimeExpression_fields_together [of utc "''call John''" 1793692800000]
    by simp
qed

text \<open>
  C3. The date returned for \<open>in N unit\<close> is not always the instant \<open>now\<close> plus \<open>N\<close> of
  the unit. For \<open>in 99999999 weeks\<close> that instant lies outside the range of a \<open>Date\<close>, and
  the date returned is invalid. In the Eastern zone at 01:45 on 1 November 2026, with
  daylight saving time in force, \<open>in 30 minutes\<close> sets the local time 02:15, which the
  zone reads in standard time: the date returned is 90 minutes after \<open>now\<close>.
\<close>

theorem relative_offset_counterexample:
  "parseTimeExpression utc ''in 99999999 weeks'' 1793692800000 =
     \<lparr>date = Some Invalid, matched = Some ''in 99999999 weeks''\<rparr>
   \<and> parseTimeExpression eastern ''in 30 minutes'' 1793511900000 =
     \<lparr>date = Some (At (1793511900000 + 90 * 60000)), matched = Some ''in 30 minutes''\<rparr>"
proof -
  have 1: "''in 99999999 weeks'' \<noteq> []"
    "search inAt (toLowerCase ''in 99999999 weeks'') = Some (''in 99999999 weeks'', ''99999999'', ''week'')"
    "toLowerCase ''week'' = ''week''"
    by code_simp+
  have 2: "int (parseInt ''99999999'') = 99999999"
    by (simp add: parseInt_def digitValue_def code_def)
  have 3: "''week'' \<in> set unitWords" by (simp add: unitWords_def)
  have 4: "TimeClip (UTC utc (LocalTime utc 1793692800000 + 99999999 * unitLength ''week'')) = Invalid"
    by code_simp
  have a: "parseTimeExpression utc ''in 99999999 weeks'' 1793692800000 =
     \<lparr>date = Some Invalid, matched = Some ''in 99999999 weeks''\<rparr>"
    by (simp add: parseTimeExpression_def 1 2 applyOffset_unit[OF 3] 4 del: search.simps)
  have b: "parseTimeExpression eastern ''in 30 minutes'' 1793511900000 =
     \<lparr>date = Some (At (1793511900000 + 90 * 60000)), matched = Some ''in 30 minutes''\<rparr>"
    by code_simp
  show ?thesis using a b by simp
qed

text \<open>
  C3, as the code has it. Let the text, in lower case, hold the phrase \<open>in N unit\<close>: the
  word \<open>in\<close>, white space, the digits of \<open>N\<close>, optional white space, one of the units
  \<open>minute\<close>, \<open>min\<close>, \<open>hour\<close>, \<open>hr\<close>, \<open>day\<close>, \<open>week\<close>, and an optional \<open>s\<close>; let the phrase be
  the leftmost place where the pattern matches, and not be continued by the text after it.
  Then \<open>parseTimeExpression\<close> returns the phrase as the matched text and, as the date, the
  local time of \<open>now\<close> plus \<open>N\<close> of the unit (minutes, hours, days, or seven days for a
  week), read back in the zone and clipped to the range of a \<open>Date\<close>; \<open>N\<close> is the number
  that the digits denote. When the zone reads that local time with the offset in force at
  \<open>now\<close>, and the instant \<open>now\<close> plus \<open>N\<close> of the unit lies within the range, the date is
  that instant.
\<close>

theorem relative_offset:
  assumes shape: "toLowerCase text = pre @ ''in'' @ ws @ ds @ ws' @ u @ pl @ post"
    and ws: "ws \<noteq> []" "\<forall>c\<in>set ws. isSpace c"
    and ds: "ds \<noteq> []" "\<forall>c\<in>set ds. isDigit c"
    and ws': "\<forall>c\<in>set ws'. isSpace c"
    and u: "u \<in> set unitWords"
    and pl: "pl = [] \<or> pl = ''s''"
    and leftmost: "\<forall>k<length pre. inAt (drop k (toLowerCase text)) = None"
    and longest: "u = ''min'' \<longrightarrow> \<not> startsWithCI (pl @ post) ''ute''"
      "pl = [] \<longrightarrow> \<not> startsWithCI post ''s''"
  shows "parseTimeExpression z text now =
           \<lparr>date = Some (TimeClip (UTC z (LocalTime z now + int (parseInt ds) * unitLength u))),
            matched = Some (''in'' @ ws @ ds @ ws' @ u @ pl)\<rparr>
    \<and> (localOffset z (LocalTime z now + int (parseInt ds) * unitLength u) = utcOffset z now
        \<and> abs (now + int (parseInt ds) * unitLength u) \<le> maxTime
       \<longrightarrow> parseTimeExpression z text now =
             \<lparr>date = Some (At (now + int (parseInt ds) * unitLength u)),
              matched = Some (''in'' @ ws @ ds @ ws' @ u @ pl)\<rparr>)"
proof -
  let ?p = "''in'' @ ws @ ds @ ws' @ u @ pl @ post"
  have ne: "text \<noteq> []" using shape by (auto simp: toLowerCase_def)
  have tail: "(if startsWithCI (pl @ post) ''s'' then take 1 (pl @ post) else []) = pl"
    using pl longest(2) by (auto simp: startsWithCI_def toLowerCase_def toLowerChar_Char)
  have "inAt ?p = Some (''in'' @ ws @ ds @ ws' @ u @ pl, ds, u)"
    using inAt_phrase[OF ws ds ws' u, of "pl @ post"] longest(1) tail by simp
  then have "search inAt ?p = Some (''in'' @ ws @ ds @ ws' @ u @ pl, ds, u)"
    by (rule search_here)
  moreover have "search inAt (pre @ ?p) = search inAt ?p"
  proof (rule search_skip)
    fix k assume "k < length pre"
    then show "inAt (drop k (pre @ ?p)) = None" using leftmost shape by simp
  qed
  ultimately have "search inAt (toLowerCase text) = Some (''in'' @ ws @ ds @ ws' @ u @ pl, ds, u)"
    using shape by simp
  then have general: "parseTimeExpression z text now =
           \<lparr>date = Some (TimeClip (UTC z (LocalTime z now + int (parseInt ds) * unitLength u))),
            matched = Some (''in'' @ ws @ ds @ ws' @ u @ pl)\<rparr>"
    using ne by (simp add: parseTimeExpression_def toLowerCase_unit[OF u] applyOffset_unit[OF u])
  have "TimeClip (UTC z (LocalTime z now + int (parseInt ds) * unitLength u))
          = At (now + int (parseInt ds) * unitLength u)"
    if "localOffset z (LocalTime z now + int (parseInt ds) * unitLength u) = utcOffset z now"
      and "abs (now + int (parseInt ds) * unitLength u) \<le> maxTime"
    using that by (simp add: same_offset TimeClip_def)
  then show ?thesis using general by simp
qed

theorem relative_offset_witness:
  "parseTimeExpression utc ''Remind me to call John in 30 minutes'' 1793692800000 =
     \<lparr>date = Some (At (1793692800000 + 30 * 60000)), matched = Some ''in 30 minutes''\<rparr>
   \<and> parseTimeExpression eastern ''In 2 Weeks'' 1793692800000 =
     \<lparr>date = Some (At (1793692800000 + 14 * 86400000)), matched = Some ''in 2 weeks''\<rparr>"
proof -
  have 1: "toLowerCase ''Remind me to call John in 30 minutes'' =
             ''remind me to call john '' @ ''in'' @ '' '' @ ''30'' @ '' '' @ ''minute'' @ ''s'' @ []"
    "toLowerCase ''In 2 Weeks'' = [] @ ''in'' @ '' '' @ ''2'' @ '' '' @ ''week'' @ ''s'' @ []"
    by code_simp+
  have 2: "\<forall>c\<in>set '' ''. isSpace c" "\<forall>c\<in>set ''30''. isDigit c" "\<forall>c\<in>set ''2''. isDigit c"
    by (simp_all add: isSpace_Char isDigit_Char)
  have 3: "''minute'' \<in> set unitWords" "''week'' \<in> set unitWords"
    by (simp_all add: unitWords_def)
  have 4: "\<forall>k<length ''remind me to call john ''.
             inAt (drop k (toLowerCase ''Remind me to call John in 30 minutes'')) = None"
    unfolding all_below by code_simp
  have 5: "\<not> startsWithCI [] ''s''" by code_simp
  have 6: "int (parseInt ''30'') * unitLength ''minute'' = 30 * 60000"
    "int (parseInt ''2'') * unitLength ''week'' = 14 * 86400000"
    by code_simp+
  have 7: "localOffset utc (LocalTime utc 1793692800000 + 30 * 60000) = utcOffset utc 1793692800000"
    "localOffset eastern (LocalTime eastern 1793692800000 + 14 * 86400000)
       = utcOffset eastern 1793692800000"
    "abs (1793692800000 + 30 * 60000) \<le> maxTime" "abs (1793692800000 + 14 * 86400000) \<le> maxTime"
    by code_simp+
  have a: "parseTimeExpression utc ''Remind me to call John in 30 minutes'' 1793692800000 =
     \<lparr>date = Some (At (1793692800000 + 30 * 60000)), matched = Some ''in 30 minutes''\<rparr>"
    using relative_offset[OF 1(1) _ 2(1) _ 2(2) 2(1) 3(1) _ 4, of utc 1793692800000, THEN conjunct2]
      5 6 7
    by simp
  have b: "parseTimeExpression eastern ''In 2 Weeks'' 1793692800000 =
     \<lparr>date = Some (At (1793692800000 + 14 * 86400000)), matched = Some ''in 2 weeks''\<rparr>"
    using relative_offset[OF 1(2) _ 2(1) _ 2(3) 2(1) 3(2), of eastern 1793692800000, THEN conjunct2]
      5 6 7
    by simp
  show ?thesis using a b by simp
qed

text \<open>
  C7. For every clock reading \<open>now\<close>, \<open>parseTimeExpression\<close> on \<open>next Friday\<close> returns an
  instant later than \<open>now\<close> and at most 13 days after it, and the instant falls on a
  Friday. The qualifier \<open>next\<close> adds the seven days whatever the current weekday is: the
  day of the instant is today plus the distance to Friday within the week plus seven.
\<close>

theorem next_friday:
  "\<exists>d. parseTimeExpression z ''next Friday'' now = \<lparr>date = Some (At d), matched = Some ''next friday''\<rparr>
       \<and> now < d \<and> d \<le> now + 13 * msPerDay \<and> getDay d = 5
       \<and> Day d = Day now + (5 - getDay now) + 7"
proof -
  let ?d = "(Day now + (12 - getDay now)) * msPerDay + 9 * msPerHour"
  have 1: "toLowerCase ''next Friday'' = ''next friday''" by code_simp
  have 2: "search inAt ''next friday'' = None" by code_simp
  have 3: "search timeAt ''next friday'' = None" by code_simp
  have 4: "defaultTime ''next friday'' t = setHours4 t 9 0 0 0" for t
  proof -
    have "\<not> includes_s ''next friday'' ''morning''" "\<not> includes_s ''next friday'' ''afternoon''"
      "\<not> includes_s ''next friday'' ''evening''" "\<not> includes_s ''next friday'' ''tonight''"
      "\<not> includes_s ''next friday'' ''night''"
      by code_simp+
    then show ?thesis by (simp add: defaultTime_def del: includes_s.simps)
  qed
  have p: "parseTimeExpression z ''next Friday'' now = \<lparr>date = Some (At ?d), matched = Some ''next friday''\<rparr>"
    by (simp add: parseTimeExpression_def 1 2 parseDayAndTime_def 3 next_friday_resolveDay 4
          setHours4_value Day_add del: search.simps includes_s.simps)
  have r: "0 \<le> getDay now \<and> getDay now \<le> 6" by (rule getDay_range)
  have b: "Day now * msPerDay \<le> now \<and> now < Day now * msPerDay + msPerDay" by (rule Day_bounds)
  have dd: "Day ?d = Day now + (12 - getDay now)"
    by (simp add: Day_def msPerDay_def msPerHour_def)
  have "now < ?d" using r b by (simp add: msPerDay_def msPerHour_def algebra_simps)
  moreover have "?d \<le> now + 13 * msPerDay"
    using r b by (simp add: msPerDay_def msPerHour_def algebra_simps)
  moreover have "getDay ?d = 5"
  proof -
    have "getDay ?d = (Day now + (12 - getDay now) + 4) mod 7"
      unfolding getDay_def[of ?d] WeekDay_def[of ?d] dd ..
    also have "\<dots> = 5" unfolding getDay_def WeekDay_def by presburger
    finally show ?thesis .
  qed
  moreover have "Day ?d = Day now + (5 - getDay now) + 7" using dd by simp
  ultimately show ?thesis using p by blast
qed

theorem next_friday_witness:
  "\<exists>d. parseTimeExpression utc ''next Friday'' 1793692800000 =
          \<lparr>date = Some (At d), matched = Some ''next friday''\<rparr>
       \<and> 1793692800000 < d \<and> d \<le> 1793692800000 + 13 * msPerDay \<and> getDay d = 5
       \<and> Day d = Day 1793692800000 + (5 - getDay 1793692800000) + 7"
  by (rule next_friday)

text \<open>
  C8. Let the offset pattern find nothing in the text and let the clock pattern match with
  the hour \<open>H\<close> and no \<open>am\<close> or \<open>pm\<close>. Then the time of day of the result is \<open>H + 12\<close>
  hours (and the minutes of the match) when \<open>1 \<le> H \<le> 7\<close>, and \<open>H\<close> hours when \<open>H\<close> is 0
  or at least 8.
\<close>

theorem bare_hour:
  assumes "search inAt (toLowerCase text) = None"
    and "search timeAt (toLowerCase text) = Some (t0, g1, g2, None)"
  shows "\<exists>D. date (parseTimeExpression z text now) =
           Some (At (MakeDate D (MakeTime (if 1 \<le> int (parseInt g1) \<and> int (parseInt g1) \<le> 7
                                           then int (parseInt g1) + 12 else int (parseInt g1))
                                          (case g2 of Some m \<Rightarrow> int (parseInt m) | None \<Rightarrow> 0) 0 0)))"
proof -
  have ne: "text \<noteq> []"
    using assms(2) by (auto simp: toLowerCase_def timeAt_def)
  obtain targetDate matchedDay where r: "resolveDay (toLowerCase text) now = (targetDate, matchedDay)"
    by (cases "resolveDay (toLowerCase text) now")
  let ?h = "if 1 \<le> int (parseInt g1) \<and> int (parseInt g1) \<le> 7
            then int (parseInt g1) + 12 else int (parseInt g1)"
  let ?m = "case g2 of Some m \<Rightarrow> int (parseInt m) | None \<Rightarrow> 0"
  let ?t = "MakeDate (Day targetDate) (MakeTime ?h ?m 0 0)"
  have "date (parseTimeExpression z text now) =
          Some (At (if matchedDay = None \<and> ?t \<le> now then MakeDate (Day targetDate + 1) (MakeTime ?h ?m 0 0)
                    else ?t))"
    using ne assms r
    by (simp add: parseTimeExpression_def parseDayAndTime_def applyTime_def to24Hour_bare
          setHours4_MakeDate setDate_add MakeDate_next_day Let_def del: search.simps)
  then show ?thesis by (cases "matchedDay = None \<and> ?t \<le> now") auto
qed

theorem bare_hour_witness:
  "(\<exists>D. date (parseTimeExpression utc ''call me at 5'' 1793692800000) =
            Some (At (MakeDate D (MakeTime (5 + 12) 0 0 0))))
   \<and> (\<exists>D. date (parseTimeExpression utc ''meet at 9:30'' 1793692800000) =
            Some (At (MakeDate D (MakeTime 9 30 0 0))))"
proof -
  have 1: "search inAt (toLowerCase ''call me at 5'') = None"
    "search inAt (toLowerCase ''meet at 9:30'') = None"
    by code_simp+
  have 2: "search timeAt (toLowerCase ''call me at 5'') = Some (''at 5'', ''5'', None, None)"
    "search timeAt (toLowerCase ''meet at 9:30'') = Some (''at 9:30'', ''9'', Some ''30'', None)"
    by code_simp+
  have 3: "int (parseInt ''5'') = 5" "int (parseInt ''9'') = 9" "int (parseInt ''30'') = 30"
    by code_simp+
  show ?thesis
    using bare_hour[OF 1(1) 2(1), of utc 1793692800000] bare_hour[OF 1(2) 2(2), of utc 1793692800000]
    by (simp add: 3)
qed

section \<open>Properties of formatReminderTime\<close>

lemma mathRoundDiv_past: "x < 0 \<Longrightarrow> mathRoundDiv x 60000 \<le> 0"
proof -
  assume "x < 0"
  then have "2 * x + 60000 < 1 * 120000" by simp
  then have "(2 * x + 60000) div 120000 < 1"
    by (simp only: zdiv_mono1 div_less_iff_less_mult zero_less_numeral)
  then show ?thesis by (simp add: mathRoundDiv_def)
qed

text \<open>
  C10. For every date earlier than \<open>now\<close>, \<open>formatReminderTime\<close> returns \<open>in N minutes\<close>
  with \<open>N \<le> 0\<close>, the rounded number of minutes from \<open>now\<close> to the date: the first bucket
  takes every past instant, and none reaches the buckets for today, tomorrow, the weekday
  or the calendar date. Without a date the result is the empty string.
\<close>

theorem past_reminder:
  "(d < now \<longrightarrow>
      formatReminderTime loc (Some d) now =
        ''in '' @ numberToString (mathRoundDiv (d - now) 60000) @ '' minutes''
      \<and> mathRoundDiv (d - now) 60000 \<le> 0)
   \<and> formatReminderTime loc None now = []"
proof -
  have "mathRoundDiv (d - now) 60000 \<le> 0" if "d < now"
    using that mathRoundDiv_past[of "d - now"] by simp
  then show ?thesis
    by (auto simp: formatReminderTime_def Let_def)
qed

theorem past_reminder_witness:
  "formatReminderTime \<lparr>timeString = (\<lambda>t. ''3:00 PM''), weekdayLong = (\<lambda>t. ''Tuesday''),
                       shortDateTime = (\<lambda>t. ''Tue, Nov 3, 3:00 PM'')\<rparr>
     (Some 1793692500000) 1793692800000 = ''in -5 minutes''
   \<and> formatReminderTime \<lparr>timeString = (\<lambda>t. ''3:00 PM''), weekdayLong = (\<lambda>t. ''Tuesday''),
                       shortDateTime = (\<lambda>t. ''Tue, Nov 3, 3:00 PM'')\<rparr>
     None 1793692800000 = []"
proof -
  have 1: "numberToString (mathRoundDiv (1793692500000 - 1793692800000) 60000) = ''-5''"
    by code_simp
  show ?thesis
    using past_reminder[of 1793692500000 1793692800000
        "\<lparr>timeString = (\<lambda>t. ''3:00 PM''), weekdayLong = (\<lambda>t. ''Tuesday''),
          shortDateTime = (\<lambda>t. ''Tue, Nov 3, 3:00 PM'')\<rparr>"] 1
    by simp
qed

section \<open>The matched text and the text of a reminder\<close>

lemma tomorrow_resolveDay:
  "resolveDay ''tomorrow at 3pm'' now = (now + msPerDay, Some ''tomorrow'')"
proof -
  have 1: "find (\<lambda>(word, daysAhead). includes_s ''tomorrow at 3pm'' word) dayWords
             = Some (''tomorrow'', 1)"
    by code_simp
  have 2: "search weekdayAt ''tomorrow at 3pm'' = None" by code_simp
  have 3: "\<not> includes_s ''tomorrow at 3pm'' ''next week''"
    "search inAWeekAt ''tomorrow at 3pm'' = None"
    by code_simp+
  show ?thesis
    unfolding resolveDay_def 1 2
    by (simp add: 3 setDate_add del: search.simps includes_s.simps)
qed

text \<open>
  C5. On the input \<open>tomorrow at 3pm\<close> the matched text is not a part of the input: the
  clock pattern matches \<open>at 3pm\<close>, the day word is \<open>tomorrow\<close>, and the result joins them
  with a second \<open>at\<close>, giving \<open>tomorrow at at 3pm\<close> for every clock reading.
\<close>

theorem matched_not_in_text:
  "parseTimeExpression z ''tomorrow at 3pm'' now =
     \<lparr>date = Some (At ((Day now + 1) * msPerDay + 15 * msPerHour)),
      matched = Some ''tomorrow at at 3pm''\<rparr>
   \<and> \<not> includes_s (toLowerCase ''tomorrow at 3pm'') (toLowerCase ''tomorrow at at 3pm'')"
proof -
  have 1: "toLowerCase ''tomorrow at 3pm'' = ''tomorrow at 3pm''" by code_simp
  have 2: "search inAt ''tomorrow at 3pm'' = None" by code_simp
  have 3: "search timeAt ''tomorrow at 3pm'' = Some (''at 3pm'', ''3'', None, Some ''pm'')"
    by code_simp
  have 4: "to24Hour (map_option toLowerCase (Some ''pm'')) (int (parseInt ''3'')) = 15"
    by code_simp
  have 5: "\<not> includes_s (toLowerCase ''tomorrow at 3pm'') (toLowerCase ''tomorrow at at 3pm'')"
    by code_simp
  have "parseTimeExpression z ''tomorrow at 3pm'' now =
     \<lparr>date = Some (At ((Day now + 1) * msPerDay + 15 * msPerHour)),
      matched = Some ''tomorrow at at 3pm''\<rparr>"
    using 4
    by (simp add: parseTimeExpression_def 1 2 parseDayAndTime_def 3 tomorrow_resolveDay
          applyTime_def setHours4_value Day_add[of now 1, simplified]
          del: search.simps includes_s.simps)
  then show ?thesis using 5 by simp
qed

theorem matched_not_in_text_witness:
  "parseTimeExpression utc ''tomorrow at 3pm'' 1793692800000 =
     \<lparr>date = Some (At 1793804400000), matched = Some ''tomorrow at at 3pm''\<rparr>"
proof -
  have "(Day 1793692800000 + 1) * msPerDay + 15 * msPerHour = 1793804400000" by code_simp
  then show ?thesis using matched_not_in_text[of utc 1793692800000] by simp
qed

text \<open>
  A consequence in the reminders plugin: for the raw input
  \<open>remind me to call John tomorrow at 3pm\<close> and a content that is not blank, the matched
  text is not found in the input, nothing is removed, and the text stored as the reminder
  keeps the time phrase.
\<close>

lemma reminder_keeps_time_phrase:
  assumes "trim c \<noteq> []"
  shows "createReminder z c time ''remind me to call John tomorrow at 3pm'' now later =
           Stored ''call John tomorrow at 3pm'' ((Day now + 1) * msPerDay + 15 * msPerHour)"
proof -
  let ?t = "''remind me to call john tomorrow at 3pm''"
  have 1: "toLowerCase ''remind me to call John tomorrow at 3pm'' = ?t" by code_simp
  have 2: "search inAt ?t = None" by code_simp
  have 3: "search timeAt ?t = Some (''at 3pm'', ''3'', None, Some ''pm'')" by code_simp
  have 4: "find (\<lambda>(word, daysAhead). includes_s ?t word) dayWords = Some (''tomorrow'', 1)"
    by code_simp
  have 5: "search weekdayAt ?t = None" "\<not> includes_s ?t ''next week''"
    "search inAWeekAt ?t = None"
    by code_simp+
  have 6: "to24Hour (map_option toLowerCase (Some ''pm'')) (int (parseInt ''3'')) = 15"
    by code_simp
  have r: "resolveDay ?t now = (now + msPerDay, Some ''tomorrow'')"
    unfolding resolveDay_def 4 5(1)
    by (simp add: 5 setDate_add del: search.simps includes_s.simps)
  have m: "parseTimeExpression z ''remind me to call John tomorrow at 3pm'' now
             = \<lparr>date = Some (At ((Day now + 1) * msPerDay + 15 * msPerHour)),
                matched = Some ''tomorrow at at 3pm''\<rparr>"
    using 6
    by (simp add: parseTimeExpression_def 1 2 parseDayAndTime_def 3 r applyTime_def
          setHours4_value Day_add[of now 1, simplified] del: search.simps includes_s.simps)
  have e: "trim (stripRemindPrefix (extractReminderContent ''remind me to call John tomorrow at 3pm''
             (Some ''tomorrow at at 3pm''))) = ''call John tomorrow at 3pm''"
    by code_simp
  have c: "c \<noteq> []" using assms by (auto simp: trim_def)
  show ?thesis
    using assms c by (simp add: createReminder_def m e toISOString_def)
qed

lemma call_john_parse:
  "parseTimeExpression z ''remind me to call John in 30 minutes'' now =
     \<lparr>date = Some (TimeClip (UTC z (LocalTime z now + 30 * msPerMinute))),
      matched = Some ''in 30 minutes''\<rparr>"
proof -
  have 1: "search inAt (toLowerCase ''remind me to call John in 30 minutes'') =
             Some (''in 30 minutes'', ''30'', ''minute'')"
    by code_simp
  have 2: "int (parseInt ''30'') = 30" "toLowerCase ''minute'' = ''minute''" by code_simp+
  have 3: "applyOffset z now 30 ''minute'' = TimeClip (UTC z (LocalTime z now + 30 * msPerMinute))"
    by (simp add: applyOffset_def startsWith_def setMinutesIn_add)
  show ?thesis
    by (simp add: parseTimeExpression_def 1 2 3 del: search.simps)
qed

text \<open>
  C6. \<open>extractReminderContent\<close> on \<open>remind me to call John in 30 minutes\<close> with the matched
  text \<open>in 30 minutes\<close> does not return \<open>call John\<close>.
\<close>

theorem extract_call_john_counterexample:
  "extractReminderContent ''remind me to call John in 30 minutes'' (Some ''in 30 minutes'')
     \<noteq> ''call John''"
  by code_simp

text \<open>
  C6, as the code has it. \<open>extractReminderContent\<close> removes the matched time phrase and
  returns \<open>remind me to call John\<close>; its pattern for a leading filler does not take
  \<open>remind me to\<close>. The reminders plugin removes that prefix afterwards. For the raw input
  \<open>remind me to call John in 30 minutes\<close>, a content that is not blank and a time of the
  reminder that is a valid date, the row it stores holds the text \<open>call John\<close> and that
  time, whatever the content, the zone and the clock reading are. With a blank content
  the plugin stores nothing and asks what to remind of.
\<close>

theorem extract_call_john:
  "extractReminderContent ''remind me to call John in 30 minutes'' (Some ''in 30 minutes'')
     = ''remind me to call John''
   \<and> (trim c \<noteq> [] \<and> TimeClip (UTC z (LocalTime z now + 30 * msPerMinute)) = At t
       \<longrightarrow> createReminder z c time ''remind me to call John in 30 minutes'' now later
             = Stored ''call John'' t)
   \<and> (trim c = []
       \<longrightarrow> createReminder z c time ''remind me to call John in 30 minutes'' now later
             = NothingToRemind)"
proof -
  have 1: "extractReminderContent ''remind me to call John in 30 minutes'' (Some ''in 30 minutes'')
             = ''remind me to call John''"
    by code_simp
  have 2: "trim (stripRemindPrefix ''remind me to call John'') = ''call John''"
    by code_simp
  have 3: "createReminder z c time ''remind me to call John in 30 minutes'' now later
             = Stored ''call John'' t"
    if "trim c \<noteq> []" "TimeClip (UTC z (LocalTime z now + 30 * msPerMinute)) = At t"
  proof -
    have "c \<noteq> []" using that(1) by (auto simp: trim_def)
    then show ?thesis
      using that by (simp add: createReminder_def call_john_parse 1 2 toISOString_def)
  qed
  have 4: "createReminder z c time ''remind me to call John in 30 minutes'' now later
             = NothingToRemind"
    if "trim c = []"
    using that by (simp add: createReminder_def)
  show ?thesis using 1 3 4 by simp
qed

theorem extract_call_john_witness:
  "createReminder utc ''me to call John in 30 minutes'' None ''remind me to call John in 30 minutes''
     1793692800000 1793692800001 = Stored ''call John'' 1793694600000
   \<and> createReminder utc [] None ''remind me to call John in 30 minutes''
     1793692800000 1793692800001 = NothingToRemind"
proof -
  have 1: "trim ''me to call John in 30 minutes'' \<noteq> []" "trim [] = []" by code_simp+
  have 2: "TimeClip (UTC utc (LocalTime utc 1793692800000 + 30 * msPerMinute)) = At 1793694600000"
    by code_simp
  show ?thesis
    using extract_call_john[of "''me to call John in 30 minutes''" utc 1793692800000 1793694600000
            None 1793692800001]
      extract_call_john[of "[]" utc 1793692800000 0 None 1793692800001] 1 2
    by simp
qed

section \<open>Properties of the resolver and the dispatch\<close>

lemma conversation_not_mapped:
  "lookupAction (Some (JStr ''conversation'')) = Inr None"
  by code_simp

lemma addEffects_nothing: "addEffects [] st = st"
  by (simp add: addEffects_def)

lemma tryBlock_response:
  assumes "processWithAI (plugins env) (supabaseClient env) (savedLocation env)
             (processWithContextAI (openaiKey env) (anthropicKey env) (callOpenAI env)
                (callAnthropic env) (jsonParse env) userInput) userInput = (Inr (Some r), fx)"
  shows "tryBlock env userInput heard st = showResponse env heard r (addEffects fx st)"
  using assms by (simp add: tryBlock_def)

lemma tryBlock_thrown:
  assumes "processWithAI (plugins env) (supabaseClient env) (savedLocation env)
             (processWithContextAI (openaiKey env) (anthropicKey env) (callOpenAI env)
                (callAnthropic env) (jsonParse env) userInput) userInput = (Inl e, fx)"
  shows "tryBlock env userInput heard st = (Some e, addEffects fx st)"
  using assms by (simp add: tryBlock_def)


lemma showResponse_messages:
  "messages (snd (showResponse env heard r st)) =
     messages st @ [\<lparr>role = ''assistant'', content = responseMessage r,
                     messageAction = responseAction r\<rparr>]"
  by (simp add: showResponse_def addMessage_def addEffects_def Let_def
        split: option.splits)

lemma showResponse_effects:
  "KeywordsRun \<notin> set (effects st) \<Longrightarrow> KeywordsRun \<notin> set (effects (snd (showResponse env heard r st)))"
  by (simp add: showResponse_def addMessage_def addEffects_def Let_def
        split: option.splits)


lemma showResponse_thrown:
  "fst (showResponse env heard r st) =
     (case onAction env of
        None \<Rightarrow> None
      | Some f \<Rightarrow> if truthyOpt (responseAction r) then f (responseAction r) (responseData r) else None)"
  by (simp add: showResponse_def Let_def split: option.splits)

lemma showResponse_effects_exact:
  "effects (snd (showResponse env heard r st)) =
     effects st @ (if heard \<noteq> [] then [Spoke (responseMessage r)] else [])
       @ (if onAction env \<noteq> None \<and> truthyOpt (responseAction r)
          then [Notified (responseAction r)] else [])"
  by (cases "onAction env"; cases "responseData r")
     (auto simp: showResponse_def addEffects_def addMessage_def Let_def)


lemma processInput_unfold:
  assumes "trim userInput \<noteq> []"
    and "tryBlock env userInput (transcript st)
           ((addMessage \<lparr>role = ''user'', content = Some (JStr userInput), messageAction = None\<rparr> st)
              \<lparr>input := [], transcript := [], isProcessing := True\<rparr>) = (thrown, st2)"
  shows "processInput env userInput st =
           (case thrown of None \<Rightarrow> st2 | Some error \<Rightarrow> addMessage (failureMessage error) st2)
             \<lparr>isProcessing := False\<rparr>"
  using assms by (simp add: processInput_def Let_def)




text \<open>
  An action that cannot be converted to a property key makes the lookup in the action map
  throw. The error leaves \<open>processWithAI\<close>, and \<open>processInput\<close> displays the failure
  message with it; nothing else happens.
\<close>

lemma unconvertible_action_fails:
  assumes "lookupAction (action ai) = Inl e"
    and "processWithContextAI (openaiKey env) (anthropicKey env) (callOpenAI env)
           (callAnthropic env) (jsonParse env) userInput = Some ai"
    and "trim userInput \<noteq> []"
  shows "messages (processInput env userInput st)
           = messages st @ [\<lparr>role = ''user'', content = Some (JStr userInput), messageAction = None\<rparr>,
                            failureMessage e]
    \<and> effects (processInput env userInput st) = effects st"
proof -
  let ?st1 = "(addMessage \<lparr>role = ''user'', content = Some (JStr userInput), messageAction = None\<rparr> st)
                \<lparr>input := [], transcript := [], isProcessing := True\<rparr>"
  have p: "processWithAI (plugins env) (supabaseClient env) (savedLocation env) (Some ai) userInput
             = (Inl e, [])"
    using assms(1) by (simp add: processWithAI_def)
  have t: "tryBlock env userInput (transcript st) ?st1 = (Some e, ?st1)"
    using tryBlock_thrown[of env userInput e "[]" "transcript st" ?st1] p assms(2)
    by (simp add: addEffects_nothing)
  show ?thesis
    unfolding processInput_unfold[OF assms(3) t] by (simp add: addMessage_def)
qed







text \<open>
  C1. A provider answer without parseable JSON does not make the resolver return nothing:
  with a key set, the answer \<open>Sure, {this is not JSON}\<close> and a \<open>JSON.parse\<close> that throws,
  the resolver returns a result whose action is \<open>conversation\<close>.
\<close>

theorem malformed_answer_counterexample:
  "processWithContextAI None (Some ''sk-ant-example'') (\<lambda>userInput. Inl ''OpenAI API error'')
     (\<lambda>userInput. Inr ''Sure, {this is not JSON}'') (\<lambda>block. None) ''note buy milk''
   = Some \<lparr>message = Some (JStr ''Sure, {this is not JSON}''),
           action = Some (JStr ''conversation''), params = JObj [], aiProcessed = True\<rparr>"
  by code_simp

text \<open>
  C1, as the code has it. Let a key be set and the provider return a text in which no
  brace block is found, or whose brace block \<open>JSON.parse\<close> rejects. Then \<open>parseAIResponse\<close>
  returns the conversation object with the text as its message; the resolver returns it,
  marked \<open>aiProcessed\<close>, without throwing; and \<open>processWithAI\<close> passes the message on with
  no plugin executed. For an input that is not blank, \<open>processInput\<close> displays the text
  as the assistant's message, with the action \<open>conversation\<close>; it displays the failure
  message after it only when there is a callback and the callback throws. Its only
  effects are speaking the text and notifying the callback: it runs no plugin, and it
  does not run the keyword cascade.
\<close>

theorem malformed_answer_is_conversation:
  assumes "jsonMatch responseText = None
           \<or> (\<exists>block. jsonMatch responseText = Some block \<and> jsonParse env block = None)"
    and "keySet (openaiKey env) \<or> keySet (anthropicKey env)"
    and "(if keySet (anthropicKey env) then callAnthropic env userInput else callOpenAI env userInput)
           = Inr responseText"
  shows "parseAIResponse (jsonParse env) responseText = conversation responseText
    \<and> processWithContextAI (openaiKey env) (anthropicKey env) (callOpenAI env) (callAnthropic env)
          (jsonParse env) userInput
        = Some \<lparr>message = Some (JStr responseText), action = Some (JStr ''conversation''),
                params = JObj [], aiProcessed = True\<rparr>
    \<and> processWithAI (plugins env) (supabaseClient env) (savedLocation env)
          (processWithContextAI (openaiKey env) (anthropicKey env) (callOpenAI env) (callAnthropic env)
             (jsonParse env) userInput) userInput
        = (Inr (Some \<lparr>responseMessage = Some (JStr responseText),
                      responseAction = Some (JStr ''conversation''), responseData = None\<rparr>), [])
    \<and> (trim userInput \<noteq> []
         \<longrightarrow> messages (processInput env userInput st)
               = messages st
                 @ [\<lparr>role = ''user'', content = Some (JStr userInput), messageAction = None\<rparr>,
                    \<lparr>role = ''assistant'', content = Some (JStr responseText),
                     messageAction = Some (JStr ''conversation'')\<rparr>]
                 @ (case onAction env of
                      None \<Rightarrow> []
                    | Some f \<Rightarrow>
                        (case f (Some (JStr ''conversation'')) None of
                           None \<Rightarrow> []
                         | Some error \<Rightarrow> [failureMessage error]))
             \<and> effects (processInput env userInput st)
               = effects st
                 @ (if transcript st \<noteq> [] then [Spoke (Some (JStr responseText))] else [])
                 @ (if onAction env \<noteq> None then [Notified (Some (JStr ''conversation''))] else []))
    \<and> (trim userInput \<noteq> [] \<and> KeywordsRun \<notin> set (effects st)
         \<longrightarrow> KeywordsRun \<notin> set (effects (processInput env userInput st)))"
proof -
  let ?ai = "\<lparr>message = Some (JStr responseText), action = Some (JStr ''conversation''),
              params = JObj [], aiProcessed = True\<rparr>"
  let ?r = "\<lparr>responseMessage = Some (JStr responseText),
             responseAction = Some (JStr ''conversation''), responseData = None\<rparr>"
  let ?user = "\<lparr>role = ''user'', content = Some (JStr userInput), messageAction = None\<rparr>"
  let ?st1 = "(addMessage ?user st)\<lparr>input := [], transcript := [], isProcessing := True\<rparr>"
  let ?sr = "showResponse env (transcript st) ?r (addEffects [] ?st1)"
  have 1: "parseAIResponse (jsonParse env) responseText = conversation responseText"
    using assms(1) by (auto simp: parseAIResponse_def)
  have 2: "processWithContextAI (openaiKey env) (anthropicKey env) (callOpenAI env) (callAnthropic env)
             (jsonParse env) userInput = Some ?ai"
    using assms(2,3) by (auto simp: processWithContextAI_def 1 conversation_def)
  have 3: "processWithAI (plugins env) (supabaseClient env) (savedLocation env) (Some ?ai) userInput
             = (Inr (Some ?r), [])"
    by (simp add: processWithAI_def conversation_not_mapped)
  have t: "tryBlock env userInput (transcript st) ?st1 = (fst ?sr, snd ?sr)"
    using tryBlock_response[of env userInput ?r "[]" "transcript st" ?st1] 2 3 by simp
  have tr: "truthyOpt (Some (JStr ''conversation''))" by (simp add: truthyOpt_def)
  have 4: "KeywordsRun \<notin> set (effects (processInput env userInput st))"
    if "trim userInput \<noteq> []" "KeywordsRun \<notin> set (effects st)"
  proof -
    have k: "KeywordsRun \<notin> set (effects (snd ?sr))"
      using that(2) by (intro showResponse_effects) (simp add: addEffects_def addMessage_def)
    show ?thesis
      unfolding processInput_unfold[OF that(1) t] using k
      by (cases "fst ?sr") (simp_all add: addMessage_def)
  qed
  have 5: "messages (processInput env userInput st)
             = messages st
               @ [?user, \<lparr>role = ''assistant'', content = Some (JStr responseText),
                          messageAction = Some (JStr ''conversation'')\<rparr>]
               @ (case onAction env of
                    None \<Rightarrow> []
                  | Some f \<Rightarrow>
                      (case f (Some (JStr ''conversation'')) None of
                         None \<Rightarrow> []
                       | Some error \<Rightarrow> [failureMessage error]))"
    if "trim userInput \<noteq> []"
  proof -
    have m: "messages (snd ?sr) = messages st
               @ [?user, \<lparr>role = ''assistant'', content = Some (JStr responseText),
                          messageAction = Some (JStr ''conversation'')\<rparr>]"
      by (simp add: showResponse_messages addEffects_def addMessage_def)
    have f: "fst ?sr = (case onAction env of None \<Rightarrow> None
                        | Some f \<Rightarrow> f (Some (JStr ''conversation'')) None)"
      using tr by (simp add: showResponse_thrown split: option.splits)
    show ?thesis
      unfolding processInput_unfold[OF that t] using m f
      by (cases "onAction env"; cases "fst ?sr") (simp_all add: addMessage_def)
  qed
  have 6: "effects (processInput env userInput st)
             = effects st
               @ (if transcript st \<noteq> [] then [Spoke (Some (JStr responseText))] else [])
               @ (if onAction env \<noteq> None then [Notified (Some (JStr ''conversation''))] else [])"
    if "trim userInput \<noteq> []"
  proof -
    have e: "effects (snd ?sr) = effects st
               @ (if transcript st \<noteq> [] then [Spoke (Some (JStr responseText))] else [])
               @ (if onAction env \<noteq> None then [Notified (Some (JStr ''conversation''))] else [])"
      using tr by (simp add: showResponse_effects_exact addEffects_def addMessage_def)
    show ?thesis
      unfolding processInput_unfold[OF that t] using e
      by (cases "fst ?sr") (simp_all add: addMessage_def)
  qed
  show ?thesis using 1 2 3 4 5 6 by simp
qed

theorem malformed_answer_is_conversation_witness:
  "processWithContextAI None (Some ''sk-ant-example'') (\<lambda>userInput. Inl ''OpenAI API error'')
     (\<lambda>userInput. Inr ''I could not find that.'') parseNoteAnswer ''where is it''
   = Some \<lparr>message = Some (JStr ''I could not find that.''),
           action = Some (JStr ''conversation''), params = JObj [], aiProcessed = True\<rparr>
   \<and> messages (processInput
         ((noteEnv (\<lambda>p. Inl ''database unavailable'') (\<lambda>u. Inl ''not used''))
            \<lparr>callAnthropic := (\<lambda>userInput. Inr ''I could not find that.'')\<rparr>) ''where is it'' idle)
     = [\<lparr>role = ''user'', content = Some (JStr ''where is it''), messageAction = None\<rparr>,
        \<lparr>role = ''assistant'', content = Some (JStr ''I could not find that.''),
         messageAction = Some (JStr ''conversation'')\<rparr>]
   \<and> effects (processInput
         ((noteEnv (\<lambda>p. Inl ''database unavailable'') (\<lambda>u. Inl ''not used''))
            \<lparr>callAnthropic := (\<lambda>userInput. Inr ''I could not find that.'')\<rparr>) ''where is it'' idle)
     = []
   \<and> KeywordsRun \<notin> set (effects (processInput
         ((noteEnv (\<lambda>p. Inl ''database unavailable'') (\<lambda>u. Inl ''not used''))
            \<lparr>callAnthropic := (\<lambda>userInput. Inr ''I could not find that.'')\<rparr>) ''where is it'' idle))"
proof -
  let ?env = "(noteEnv (\<lambda>p. Inl ''database unavailable'') (\<lambda>u. Inl ''not used''))
                \<lparr>callAnthropic := (\<lambda>userInput. Inr ''I could not find that.'')\<rparr>"
  have 1: "jsonMatch ''I could not find that.'' = None" by code_simp
  have 2: "keySet (Some ''sk-ant-example'')" by code_simp
  have 3: "trim ''where is it'' \<noteq> []" by code_simp
  show ?thesis
    using malformed_answer_is_conversation[of "''I could not find that.''" ?env "''where is it''" idle]
      1 2 3
    by (simp add: noteEnv_def idle_def)
qed

end
